theory Spec2Isabelle
  imports Complex_Main "HOL-Library.AList"
begin

section \<open>Types (types/index)\<close>

text \<open>
  The TypeScript unions \<open>Color\<close>, \<open>PieceType\<close> and \<open>GameStatus\<close> are datatypes; the
  interfaces are records. \<open>Square\<close> is a plain string in the source. JavaScript numbers
  that hold board indices and counters are modelled as \<open>int\<close>. Squares and the
  strings the engine builds itself are \<open>string\<close>s; what reads a square only compares
  lengths and character codes. A FEN handed to the parser is kept as the UTF-16 code
  units of the source (see the FEN parser).
\<close>

datatype Color = White | Black

datatype PieceType = King | Queen | Rook | Bishop | Knight | Pawn

record Piece =
  ptype :: PieceType
  color :: Color

type_synonym Square = string

record Coordinates =
  row :: int
  col :: int

datatype CastlingSide = Kingside | Queenside

text \<open>
  \<open>Move\<close> has every field of \<open>MoveOptions\<close> (\<open>from\<close>, \<open>to\<close>, \<open>promotion\<close>), which is
  how the search hands a \<open>Move\<close> to \<open>Game.move\<close>; the record extension keeps that.
  Optional fields are options; an optional boolean that is absent is \<open>None\<close>.
\<close>

record MoveOptions =
  from_sq :: Square
  to_sq :: Square
  promotion :: "PieceType option"

record Move = MoveOptions +
  piece :: Piece
  captured :: "Piece option"
  castling :: "CastlingSide option"
  enPassant :: "bool option"
  san :: "string option"
  check_flag :: "bool option"
  checkmate_flag :: "bool option"

record MoveValidation =
  valid :: bool
  error :: "string option"

datatype GameStatus =
  Active | Check | Checkmate | Stalemate | Draw
  | Insufficient_material | Threefold_repetition | Fifty_move_rule

record CastlingRights =
  whiteKingside :: bool
  whiteQueenside :: bool
  blackKingside :: bool
  blackQueenside :: bool

definition opposite :: "Color \<Rightarrow> Color" where
  "opposite c = (if c = White then Black else White)"

section \<open>Board (engine/board)\<close>

text \<open>
  \<open>board[row][col]\<close>, row 0 = rank 1, column 0 = file a. Every board of the engine is
  built by \<open>createEmptyBoard\<close> (8 rows of 8 squares) and then written square by square.
\<close>

type_synonym Board = "Piece option list list"

text \<open>\<open>xs[i]\<close> of JavaScript: \<open>undefined\<close> (here \<open>None\<close>) outside the array.\<close>

fun index_opt :: "'a list \<Rightarrow> int \<Rightarrow> 'a option" where
  "index_opt [] i = None"
| "index_opt (x # xs) i = (if i = 0 then Some x else index_opt xs (i - 1))"

definition indices8 :: "int list" where
  "indices8 = [0, 1, 2, 3, 4, 5, 6, 7]"

definition createEmptyBoard :: Board where
  "createEmptyBoard = replicate 8 (replicate 8 None)"

definition isValidCoords :: "int \<Rightarrow> int \<Rightarrow> bool" where
  "isValidCoords r c = (r \<ge> 0 \<and> r \<le> 7 \<and> c \<ge> 0 \<and> c \<le> 7)"

text \<open>\<open>this.board[row]?.[col] ?? null\<close>\<close>

definition cell :: "Board \<Rightarrow> int \<Rightarrow> int \<Rightarrow> Piece option" where
  "cell b r c =
     (case index_opt b r of
        None \<Rightarrow> None
      | Some rw \<Rightarrow> (case index_opt rw c of None \<Rightarrow> None | Some p \<Rightarrow> p))"

definition getPieceAt :: "Board \<Rightarrow> int \<Rightarrow> int \<Rightarrow> Piece option" where
  "getPieceAt b r c =
     (if r < 0 \<or> r > 7 \<or> c < 0 \<or> c > 7 then None else cell b r c)"

definition setPieceAt :: "Board \<Rightarrow> int \<Rightarrow> int \<Rightarrow> Piece option \<Rightarrow> Board" where
  "setPieceAt b r c p =
     (if r < 0 \<or> r > 7 \<or> c < 0 \<or> c > 7 then b
      else b[nat r := (b ! nat r)[nat c := p]])"

text \<open>
  \<open>parseInt(rank, 10)\<close> of a one-character string: the digit, or \<open>NaN\<close> (here \<open>None\<close>).
\<close>

definition isDigit :: "char \<Rightarrow> bool" where
  "isDigit ch = (let n = (of_char ch :: int) in 48 \<le> n \<and> n \<le> 57)"

definition parseIntChar :: "char \<Rightarrow> int option" where
  "parseIntChar ch = (if isDigit ch then Some (of_char ch - 48) else None)"

definition squareToCoords :: "Square \<Rightarrow> Coordinates option" where
  "squareToCoords square =
     (case square of
        [file, rank] \<Rightarrow>
          (let c = (of_char file :: int) - of_char (CHR ''a'') in
           case parseIntChar rank of
             None \<Rightarrow> None
           | Some n \<Rightarrow>
               (let r = n - 1 in
                if c < 0 \<or> c > 7 \<or> r < 0 \<or> r > 7 then None
                else Some \<lparr>row = r, col = c\<rparr>))
      | _ \<Rightarrow> None)"

definition coordsToSquare :: "int \<Rightarrow> int \<Rightarrow> Square option" where
  "coordsToSquare r c =
     (if r < 0 \<or> r > 7 \<or> c < 0 \<or> c > 7 then None
      else Some [char_of ((of_char (CHR ''a'') :: int) + c), char_of (48 + (r + 1))])"

definition isValidSquare :: "Square \<Rightarrow> bool" where
  "isValidSquare square = (squareToCoords square \<noteq> None)"

definition getPiece :: "Board \<Rightarrow> Square \<Rightarrow> Piece option" where
  "getPiece b square =
     (case squareToCoords square of
        None \<Rightarrow> None
      | Some co \<Rightarrow> cell b (row co) (col co))"

definition setPiece :: "Board \<Rightarrow> Square \<Rightarrow> Piece option \<Rightarrow> Board" where
  "setPiece b square p =
     (case squareToCoords square of
        None \<Rightarrow> b
      | Some co \<Rightarrow> b[nat (row co) := (b ! nat (row co))[nat (col co) := p]])"

definition movePiece :: "Board \<Rightarrow> Square \<Rightarrow> Square \<Rightarrow> Board" where
  "movePiece b from to =
     (case squareToCoords from of
        None \<Rightarrow> b
      | Some fc \<Rightarrow>
          (case squareToCoords to of
             None \<Rightarrow> b
           | Some tc \<Rightarrow>
               (let p = getPieceAt b (row fc) (col fc) in
                setPieceAt (setPieceAt b (row tc) (col tc) p) (row fc) (col fc) None)))"

definition isEmpty :: "Board \<Rightarrow> Square \<Rightarrow> bool" where
  "isEmpty b square = (getPiece b square = None)"

definition pieceRow :: "PieceType list \<Rightarrow> Color \<Rightarrow> Piece option list" where
  "pieceRow ts c = map (\<lambda>t. Some \<lparr>ptype = t, color = c\<rparr>) ts"

definition backRank :: "PieceType list" where
  "backRank = [Rook, Knight, Bishop, Queen, King, Bishop, Knight, Rook]"

definition setupStartingPosition :: Board where
  "setupStartingPosition =
     [pieceRow backRank White, pieceRow (replicate 8 Pawn) White,
      replicate 8 None, replicate 8 None, replicate 8 None, replicate 8 None,
      pieceRow (replicate 8 Pawn) Black, pieceRow backRank Black]"

text \<open>The squares of one colour, rows then columns ascending, as the two loops run.\<close>

definition squareEntry :: "Board \<Rightarrow> (Piece \<Rightarrow> bool) \<Rightarrow> int \<Rightarrow> int \<Rightarrow> (Square \<times> Piece) list" where
  "squareEntry b ok r c =
     (case cell b r c of
        None \<Rightarrow> []
      | Some p \<Rightarrow>
          (if ok p then (case coordsToSquare r c of None \<Rightarrow> [] | Some s \<Rightarrow> [(s, p)])
           else []))"

definition squaresOf :: "Board \<Rightarrow> (Piece \<Rightarrow> bool) \<Rightarrow> (Square \<times> Piece) list" where
  "squaresOf b ok = concat (map (\<lambda>r. concat (map (squareEntry b ok r) indices8)) indices8)"

definition findPieces :: "Board \<Rightarrow> Color \<Rightarrow> (Square \<times> Piece) list" where
  "findPieces b c = squaresOf b (\<lambda>p. color p = c)"

text \<open>
  \<open>findKing\<close> returns \<open>coordsToSquare\<close> of the first king found, rows then columns
  ascending; on the 8 by 8 range that conversion never fails.
\<close>

definition findKing :: "Board \<Rightarrow> Color \<Rightarrow> Square option" where
  "findKing b c =
     (case squaresOf b (\<lambda>p. ptype p = King \<and> color p = c) of
        [] \<Rightarrow> None
      | (s, p) # rest \<Rightarrow> Some s)"

section \<open>Piece movement (engine/pieces)\<close>

definition ORTHOGONAL :: "(int \<times> int) list" where
  "ORTHOGONAL = [(-1, 0), (1, 0), (0, -1), (0, 1)]"

definition DIAGONAL :: "(int \<times> int) list" where
  "DIAGONAL = [(-1, -1), (-1, 1), (1, -1), (1, 1)]"

definition KNIGHT :: "(int \<times> int) list" where
  "KNIGHT = [(-2, -1), (-2, 1), (-1, -2), (-1, 2), (1, -2), (1, 2), (2, -1), (2, 1)]"

definition ALL_DIRS :: "(int \<times> int) list" where
  "ALL_DIRS = [(-1, 0), (1, 0), (0, -1), (0, 1), (-1, -1), (-1, 1), (1, -1), (1, 1)]"

definition getPawnMoves :: "Board \<Rightarrow> Coordinates \<Rightarrow> Color \<Rightarrow> Coordinates list" where
  "getPawnMoves b from c =
     (let direction = (if c = White then 1 else -1);
          startRank = (if c = White then 1 else 6);
          r = row from;
          cl = col from;
          forward =
            (if isValidCoords (r + direction) cl \<and> getPieceAt b (r + direction) cl = None
             then \<lparr>row = r + direction, col = cl\<rparr> #
               (if r = startRank
                then (if isValidCoords (r + direction * 2) cl
                         \<and> getPieceAt b (r + direction * 2) cl = None
                      then [\<lparr>row = r + direction * 2, col = cl\<rparr>] else [])
                else [])
             else []);
          captures =
            concat (map (\<lambda>offset.
              (if isValidCoords (r + direction) (cl + offset)
               then (case getPieceAt b (r + direction) (cl + offset) of
                       None \<Rightarrow> []
                     | Some tp \<Rightarrow>
                         (if color tp = c then []
                          else [\<lparr>row = r + direction, col = cl + offset\<rparr>]))
               else [])) [-1, 1])
      in forward @ captures)"

text \<open>
  The \<open>while\<close> loop of \<open>getSlidingMoves\<close> for one direction, started at the first
  square after the origin. The direction vectors of the source are never \<open>(0, 0)\<close>; the
  loop would not end on that one, and the model returns no square for it.
\<close>

function slide :: "Board \<Rightarrow> Color \<Rightarrow> int \<Rightarrow> int \<Rightarrow> int \<Rightarrow> int \<Rightarrow> Coordinates list" where
  "slide b c r cl dr dc =
     (if isValidCoords r cl \<and> (dr \<noteq> 0 \<or> dc \<noteq> 0)
      then (case getPieceAt b r cl of
              None \<Rightarrow> \<lparr>row = r, col = cl\<rparr> # slide b c (r + dr) (cl + dc) dr dc
            | Some tp \<Rightarrow> (if color tp = c then [] else [\<lparr>row = r, col = cl\<rparr>]))
      else [])"
  by pat_completeness auto
termination
  by (relation "measure (\<lambda>(b, c, r, cl, dr, dc).
        if dr > 0 then nat (8 - r) else if dr < 0 then nat (r + 1)
        else if dc > 0 then nat (8 - cl) else nat (cl + 1))")
     (auto simp: isValidCoords_def)

declare slide.simps [simp del]

definition getSlidingMoves ::
  "Board \<Rightarrow> Coordinates \<Rightarrow> Color \<Rightarrow> (int \<times> int) list \<Rightarrow> Coordinates list" where
  "getSlidingMoves b from c directions =
     concat (map (\<lambda>(dr, dc). slide b c (row from + dr) (col from + dc) dr dc) directions)"

definition getJumpMoves ::
  "Board \<Rightarrow> Coordinates \<Rightarrow> Color \<Rightarrow> (int \<times> int) list \<Rightarrow> Coordinates list" where
  "getJumpMoves b from c directions =
     concat (map (\<lambda>(dr, dc).
       (if isValidCoords (row from + dr) (col from + dc)
        then (case getPieceAt b (row from + dr) (col from + dc) of
                None \<Rightarrow> [\<lparr>row = row from + dr, col = col from + dc\<rparr>]
              | Some tp \<Rightarrow>
                  (if color tp = c then []
                   else [\<lparr>row = row from + dr, col = col from + dc\<rparr>]))
        else [])) directions)"

definition getPseudoLegalMoves ::
  "Board \<Rightarrow> Coordinates \<Rightarrow> PieceType \<Rightarrow> Color \<Rightarrow> Coordinates list" where
  "getPseudoLegalMoves b from t c =
     (case t of
        Pawn \<Rightarrow> getPawnMoves b from c
      | Knight \<Rightarrow> getJumpMoves b from c KNIGHT
      | Bishop \<Rightarrow> getSlidingMoves b from c DIAGONAL
      | Rook \<Rightarrow> getSlidingMoves b from c ORTHOGONAL
      | Queen \<Rightarrow> getSlidingMoves b from c ALL_DIRS
      | King \<Rightarrow> getJumpMoves b from c ALL_DIRS)"

text \<open>
  One ray of \<open>isSquareUnderAttack\<close>: walk from the square until a piece is met; the ray
  attacks when that piece has the attacking colour and one of the two sliding types.
\<close>

function attackRay ::
  "Board \<Rightarrow> Color \<Rightarrow> PieceType \<Rightarrow> int \<Rightarrow> int \<Rightarrow> int \<Rightarrow> int \<Rightarrow> bool" where
  "attackRay b ac t r cl dr dc =
     (if isValidCoords r cl \<and> (dr \<noteq> 0 \<or> dc \<noteq> 0)
      then (case getPieceAt b r cl of
              None \<Rightarrow> attackRay b ac t (r + dr) (cl + dc) dr dc
            | Some p \<Rightarrow> color p = ac \<and> (ptype p = t \<or> ptype p = Queen))
      else False)"
  by pat_completeness auto
termination
  by (relation "measure (\<lambda>(b, ac, t, r, cl, dr, dc).
        if dr > 0 then nat (8 - r) else if dr < 0 then nat (r + 1)
        else if dc > 0 then nat (8 - cl) else nat (cl + 1))")
     (auto simp: isValidCoords_def)

declare attackRay.simps [simp del]

definition pieceIs :: "Board \<Rightarrow> int \<Rightarrow> int \<Rightarrow> PieceType \<Rightarrow> Color \<Rightarrow> bool" where
  "pieceIs b r c t ac =
     (isValidCoords r c \<and>
      (case getPieceAt b r c of None \<Rightarrow> False | Some p \<Rightarrow> ptype p = t \<and> color p = ac))"

definition isSquareUnderAttack :: "Board \<Rightarrow> Coordinates \<Rightarrow> Color \<Rightarrow> bool" where
  "isSquareUnderAttack b square attackingColor =
     (let r = row square;
          c = col square;
          pawnDirection = (if attackingColor = White then 1 else -1)
      in if list_ex (\<lambda>offset. pieceIs b (r - pawnDirection) (c + offset) Pawn attackingColor)
              [-1, 1] then True
         else if list_ex (\<lambda>(dr, dc). pieceIs b (r + dr) (c + dc) Knight attackingColor) KNIGHT
         then True
         else if list_ex (\<lambda>(dr, dc). pieceIs b (r + dr) (c + dc) King attackingColor) ALL_DIRS
         then True
         else if list_ex (\<lambda>(dr, dc). attackRay b attackingColor Bishop (r + dr) (c + dc) dr dc)
              DIAGONAL then True
         else if list_ex (\<lambda>(dr, dc). attackRay b attackingColor Rook (r + dr) (c + dc) dr dc)
              ORTHOGONAL then True
         else False)"

definition isKingInCheck :: "Board \<Rightarrow> Color \<Rightarrow> bool" where
  "isKingInCheck b kingColor =
     (case findKing b kingColor of
        None \<Rightarrow> False
      | Some kingSquare \<Rightarrow>
          (case squareToCoords kingSquare of
             None \<Rightarrow> False
           | Some kingCoords \<Rightarrow> isSquareUnderAttack b kingCoords (opposite kingColor)))"

section \<open>Move generator (engine/moves)\<close>

record MoveGenerator =
  gen_board :: Board
  gen_castlingRights :: CastlingRights
  gen_enPassantSquare :: "Square option"

text \<open>A string or \<open>null\<close> used as a condition: \<open>null\<close> and the empty string are falsy.\<close>

definition truthy :: "'a list option \<Rightarrow> bool" where
  "truthy s = (case s of None \<Rightarrow> False | Some str \<Rightarrow> str \<noteq> [])"

definition isPawnPromotionRank :: "int \<Rightarrow> Color \<Rightarrow> bool" where
  "isPawnPromotionRank rank c = ((c = White \<and> rank = 7) \<or> (c = Black \<and> rank = 0))"

definition isPawnPromotionRequired ::
  "MoveGenerator \<Rightarrow> Square \<Rightarrow> Square \<Rightarrow> Color \<Rightarrow> bool" where
  "isPawnPromotionRequired mg from to c =
     (case getPiece (gen_board mg) from of
        None \<Rightarrow> False
      | Some p \<Rightarrow>
          (if ptype p = Pawn
           then (case squareToCoords to of
                   None \<Rightarrow> False
                 | Some toCoords \<Rightarrow> isPawnPromotionRank (row toCoords) c)
           else False))"

text \<open>\<open>isMoveLegal\<close>: \<open>movePiece(from, to)\<close> on a clone, then the king test.\<close>

definition isMoveLegal :: "MoveGenerator \<Rightarrow> Square \<Rightarrow> Square \<Rightarrow> Color \<Rightarrow> bool" where
  "isMoveLegal mg from to c = (\<not> isKingInCheck (movePiece (gen_board mg) from to) c)"

definition getEnPassantMove :: "MoveGenerator \<Rightarrow> Square \<Rightarrow> Color \<Rightarrow> Move option" where
  "getEnPassantMove mg from c =
     (if truthy (gen_enPassantSquare mg)
      then
        (let ep = the (gen_enPassantSquare mg) in
         case squareToCoords from of
           None \<Rightarrow> None
         | Some fromCoords \<Rightarrow>
            (case squareToCoords ep of
               None \<Rightarrow> None
             | Some enPassantCoords \<Rightarrow>
                (let direction = (if c = White then 1 else -1);
                     canCapture =
                       (row enPassantCoords = row fromCoords + direction
                        \<and> abs (col enPassantCoords - col fromCoords) = 1)
                 in if canCapture
                    then (if isMoveLegal mg from ep c
                          then
                            (let capturedPawnRank =
                                   (if c = White then row enPassantCoords - 1
                                    else row enPassantCoords + 1);
                                 capturedPawn =
                                   (case coordsToSquare capturedPawnRank (col enPassantCoords) of
                                      None \<Rightarrow> None
                                    | Some sq \<Rightarrow> getPiece (gen_board mg) sq)
                             in Some \<lparr>from_sq = from, to_sq = ep, promotion = None,
                                   piece = \<lparr>ptype = Pawn, color = c\<rparr>,
                                   captured = capturedPawn, castling = None,
                                   enPassant = Some True, san = None,
                                   check_flag = None, checkmate_flag = None\<rparr>)
                          else None)
                    else None)))
      else None)"

definition homeRank :: "Color \<Rightarrow> char" where
  "homeRank c = (if c = White then CHR ''1'' else CHR ''8'')"

definition pieceOn :: "Board \<Rightarrow> Square \<Rightarrow> PieceType \<Rightarrow> Color \<Rightarrow> bool" where
  "pieceOn b sq t c =
     (case getPiece b sq of None \<Rightarrow> False | Some p \<Rightarrow> ptype p = t \<and> color p = c)"

definition attackedSquare :: "Board \<Rightarrow> Square \<Rightarrow> Color \<Rightarrow> bool option" where
  "attackedSquare b sq by =
     (case squareToCoords sq of
        None \<Rightarrow> None
      | Some co \<Rightarrow> Some (isSquareUnderAttack b co by))"

definition canCastleKingside :: "MoveGenerator \<Rightarrow> Color \<Rightarrow> bool" where
  "canCastleKingside mg c =
     (let hasRights = (if c = White then whiteKingside (gen_castlingRights mg)
                       else blackKingside (gen_castlingRights mg));
          rank = homeRank c;
          b = gen_board mg
      in if \<not> hasRights then False
         else if \<not> pieceOn b [CHR ''e'', rank] King c then False
         else if \<not> pieceOn b [CHR ''h'', rank] Rook c then False
         else if \<not> isEmpty b [CHR ''f'', rank] \<or> \<not> isEmpty b [CHR ''g'', rank] then False
         else if isKingInCheck b c then False
         else (case attackedSquare b [CHR ''f'', rank] (opposite c) of
                 None \<Rightarrow> False
               | Some fAttacked \<Rightarrow>
                   (case attackedSquare b [CHR ''g'', rank] (opposite c) of
                      None \<Rightarrow> False
                    | Some gAttacked \<Rightarrow> \<not> (fAttacked \<or> gAttacked))))"

definition canCastleQueenside :: "MoveGenerator \<Rightarrow> Color \<Rightarrow> bool" where
  "canCastleQueenside mg c =
     (let hasRights = (if c = White then whiteQueenside (gen_castlingRights mg)
                       else blackQueenside (gen_castlingRights mg));
          rank = homeRank c;
          b = gen_board mg
      in if \<not> hasRights then False
         else if \<not> pieceOn b [CHR ''e'', rank] King c then False
         else if \<not> pieceOn b [CHR ''a'', rank] Rook c then False
         else if \<not> isEmpty b [CHR ''b'', rank] \<or> \<not> isEmpty b [CHR ''c'', rank]
                 \<or> \<not> isEmpty b [CHR ''d'', rank] then False
         else if isKingInCheck b c then False
         else (case attackedSquare b [CHR ''c'', rank] (opposite c) of
                 None \<Rightarrow> False
               | Some cAttacked \<Rightarrow>
                   (case attackedSquare b [CHR ''d'', rank] (opposite c) of
                      None \<Rightarrow> False
                    | Some dAttacked \<Rightarrow> \<not> (cAttacked \<or> dAttacked))))"

definition castlingMove :: "Color \<Rightarrow> CastlingSide \<Rightarrow> Move" where
  "castlingMove c side =
     \<lparr>from_sq = [CHR ''e'', homeRank c],
      to_sq = [if side = Kingside then CHR ''g'' else CHR ''c'', homeRank c],
      promotion = None, piece = \<lparr>ptype = King, color = c\<rparr>, captured = None,
      castling = Some side, enPassant = None, san = None,
      check_flag = None, checkmate_flag = None\<rparr>"

definition getCastlingMoves :: "MoveGenerator \<Rightarrow> Color \<Rightarrow> Move list" where
  "getCastlingMoves mg c =
     (if canCastleKingside mg c then [castlingMove c Kingside] else [])
     @ (if canCastleQueenside mg c then [castlingMove c Queenside] else [])"

text \<open>
  The move object of an ordinary move; \<open>{ ...move, promotion }\<close> is the same object with
  the promotion set.
\<close>

definition ordinaryMove ::
  "Square \<Rightarrow> Square \<Rightarrow> Piece \<Rightarrow> Piece option \<Rightarrow> PieceType option \<Rightarrow> Move" where
  "ordinaryMove from to p cap promo =
     \<lparr>from_sq = from, to_sq = to, promotion = promo, piece = p, captured = cap,
      castling = None, enPassant = None, san = None,
      check_flag = None, checkmate_flag = None\<rparr>"

definition movesTo :: "MoveGenerator \<Rightarrow> Square \<Rightarrow> Piece \<Rightarrow> Color \<Rightarrow> Coordinates \<Rightarrow> Move list" where
  "movesTo mg from p c toCoords =
     (case coordsToSquare (row toCoords) (col toCoords) of
        None \<Rightarrow> []
      | Some to \<Rightarrow>
          (if isMoveLegal mg from to c
           then (if ptype p = Pawn \<and> isPawnPromotionRank (row toCoords) c
                 then map (\<lambda>pr. ordinaryMove from to p (getPiece (gen_board mg) to) (Some pr))
                        [Queen, Rook, Bishop, Knight]
                 else [ordinaryMove from to p (getPiece (gen_board mg) to) None])
           else []))"

definition pushIfPresent :: "'a option \<Rightarrow> 'a list" where
  "pushIfPresent x = (case x of None \<Rightarrow> [] | Some m \<Rightarrow> [m])"

definition generateLegalMovesFrom :: "MoveGenerator \<Rightarrow> Square \<Rightarrow> Color \<Rightarrow> Move list" where
  "generateLegalMovesFrom mg from c =
     (case getPiece (gen_board mg) from of
        None \<Rightarrow> []
      | Some p \<Rightarrow>
         (if color p = c
          then
            (case squareToCoords from of
               None \<Rightarrow> []
             | Some fromCoords \<Rightarrow>
                 concat (map (movesTo mg from p c)
                           (getPseudoLegalMoves (gen_board mg) fromCoords (ptype p) c))
                 @ (if ptype p = Pawn \<and> truthy (gen_enPassantSquare mg)
                    then pushIfPresent (getEnPassantMove mg from c)
                    else [])
                 @ (if ptype p = King then getCastlingMoves mg c else []))
          else []))"

definition generateLegalMoves :: "MoveGenerator \<Rightarrow> Color \<Rightarrow> Move list" where
  "generateLegalMoves mg c =
     concat (map (\<lambda>(square, p). generateLegalMovesFrom mg square c)
                 (findPieces (gen_board mg) c))"

definition rejected :: "string \<Rightarrow> MoveValidation" where
  "rejected msg = \<lparr>valid = False, error = Some msg\<rparr>"

definition matchesRequest :: "'a MoveOptions_scheme \<Rightarrow> Move \<Rightarrow> bool" where
  "matchesRequest req m =
     (if from_sq m \<noteq> from_sq req \<or> to_sq m \<noteq> to_sq req then False
      else if promotion req \<noteq> None then promotion m = promotion req
      else True)"

definition validateMove :: "MoveGenerator \<Rightarrow> 'a MoveOptions_scheme \<Rightarrow> Color \<Rightarrow> MoveValidation" where
  "validateMove mg req c =
     (if \<not> isValidSquare (from_sq req) \<or> \<not> isValidSquare (to_sq req)
      then rejected ''Invalid square''
      else (case getPiece (gen_board mg) (from_sq req) of
              None \<Rightarrow> rejected ''No piece at starting square''
            | Some p \<Rightarrow>
               (if color p \<noteq> c then rejected ''Not your piece''
                else if from_sq req = to_sq req then rejected ''Cannot move to the same square''
                else (case find (matchesRequest req)
                             (generateLegalMovesFrom mg (from_sq req) c) of
                        None \<Rightarrow> rejected ''Illegal move''
                      | Some matchingMove \<Rightarrow>
                          (if ptype p = Pawn
                              \<and> isPawnPromotionRequired mg (from_sq req) (to_sq req) c
                              \<and> promotion req = None
                           then rejected ''Pawn promotion required''
                           else \<lparr>valid = True, error = None\<rparr>)))))"

definition isCheckmate :: "MoveGenerator \<Rightarrow> Color \<Rightarrow> bool" where
  "isCheckmate mg c =
     (if \<not> isKingInCheck (gen_board mg) c then False
      else generateLegalMoves mg c = [])"

definition isStalemate :: "MoveGenerator \<Rightarrow> Color \<Rightarrow> bool" where
  "isStalemate mg c =
     (if isKingInCheck (gen_board mg) c then False
      else generateLegalMoves mg c = [])"

section \<open>FEN parser and generator (engine/fen)\<close>

text \<open>
  A FEN handed to the parser is any JavaScript string: a sequence of UTF-16 code units,
  here the list of their numbers (each below 65536). The strings the engine builds itself
  (squares, notation, the FEN it generates) hold ASCII characters only and are
  \<open>string\<close>s; \<open>js\<close> gives their code units.
\<close>

type_synonym JsString = "int list"

definition js :: "string \<Rightarrow> JsString" where
  "js s = map of_char s"

text \<open>
  Every \<open>throw new Error(...)\<close> of the parser is one constructor, with the value the
  message is built from.
\<close>

datatype FenError =
  ExpectedSixParts nat
  | ExpectedEightRanks nat
  | TooManySquares int
  | InvalidEmptyCount JsString
  | UnknownPieceChar JsString
  | IncompleteRank int
  | InvalidActiveColor JsString
  | InvalidCastlingChar JsString
  | InvalidEnPassant JsString
  | InvalidHalfmoveClock JsString
  | InvalidFullmoveNumber JsString

text \<open>
  White space of \<open>trim\<close> and of the pattern \<open>\\s\<close>: tab, line feed, vertical tab, form
  feed, carriage return, space, no-break space (U+00A0), U+1680, U+2000 to U+200A, the
  line and paragraph separators U+2028 and U+2029, U+202F, U+205F, U+3000 and the byte
  order mark U+FEFF.
\<close>

definition isSpace :: "int \<Rightarrow> bool" where
  "isSpace u =
     ((9 \<le> u \<and> u \<le> 13) \<or> u = 32 \<or> u = 160 \<or> u = 5760 \<or> (8192 \<le> u \<and> u \<le> 8202)
      \<or> u = 8232 \<or> u = 8233 \<or> u = 8239 \<or> u = 8287 \<or> u = 12288 \<or> u = 65279)"

definition trim :: "JsString \<Rightarrow> JsString" where
  "trim s = rev (dropWhile isSpace (rev (dropWhile isSpace s)))"

text \<open>\<open>s.split(/\\s+/)\<close>: the pieces between maximal runs of white space.\<close>

function splitSpaces :: "JsString \<Rightarrow> JsString list" where
  "splitSpaces s =
     (let tok = takeWhile (\<lambda>u. \<not> isSpace u) s;
          rest = dropWhile (\<lambda>u. \<not> isSpace u) s
      in if rest = [] then [tok] else tok # splitSpaces (dropWhile isSpace rest))"
  by pat_completeness auto
termination
proof (relation "measure length")
  show "wf (measure length)" by simp
next
  fix s :: JsString and tok rest
  assume r: "rest = dropWhile (\<lambda>u. \<not> isSpace u) s" and ne: "rest \<noteq> []"
  from ne obtain a tl where c: "rest = a # tl" by (cases rest) auto
  have "isSpace (hd rest)"
    using hd_dropWhile [of "\<lambda>u. \<not> isSpace u" s] ne r by simp
  then have "isSpace a" using c by simp
  then have "dropWhile isSpace rest = dropWhile isSpace tl" using c by simp
  then have "length (dropWhile isSpace rest) < length rest"
    using c length_dropWhile_le [of isSpace tl] by simp
  moreover have "length rest \<le> length s"
    using r by (simp add: length_dropWhile_le)
  ultimately show "(dropWhile isSpace rest, s) \<in> measure length" by simp
qed

declare splitSpaces.simps [simp del]

text \<open>\<open>s.split(sep)\<close> for a one-character separator.\<close>

primrec splitChar :: "int \<Rightarrow> JsString \<Rightarrow> JsString list" where
  "splitChar sep [] = [[]]"
| "splitChar sep (x # xs) =
     (if x = sep then [] # splitChar sep xs
      else (case splitChar sep xs of
              [] \<Rightarrow> [[x]]
            | t # ts \<Rightarrow> (x # t) # ts))"

text \<open>
  \<open>for (const char of s)\<close>: the characters of the loop are the code points of the
  string, each a string of its own: a high surrogate (U+D800 to U+DBFF) followed by a low
  one (U+DC00 to U+DFFF) is one character of two code units, every other code unit is a
  character by itself.
\<close>

fun codePoints :: "JsString \<Rightarrow> JsString list" where
  "codePoints [] = []"
| "codePoints [u] = [[u]]"
| "codePoints (u # v # rest) =
     (if 55296 \<le> u \<and> u \<le> 56319 \<and> 56320 \<le> v \<and> v \<le> 57343
      then [u, v] # codePoints rest
      else [u] # codePoints (v # rest))"

text \<open>
  \<open>char.toUpperCase()\<close> and \<open>char.toLowerCase()\<close> for one character of such a loop.
  The Unicode case tables are written out as far as \<open>charToPiece\<close> can tell them apart:
  the letters A to Z and a to z, and U+212A KELVIN SIGN, whose lower case is k (U+006B)
  and which has no upper case of its own. No other character has a lower case among the
  six keys of \<open>typeMap\<close>, and the colour is read only when the key is found, so every
  other character is left as it is.
\<close>

definition toUpperCase :: "JsString \<Rightarrow> JsString" where
  "toUpperCase ch =
     (case ch of
        [u] \<Rightarrow> (if 97 \<le> u \<and> u \<le> 122 then [u - 32] else ch)
      | _ \<Rightarrow> ch)"

definition toLowerCase :: "JsString \<Rightarrow> JsString" where
  "toLowerCase ch =
     (case ch of
        [u] \<Rightarrow> (if 65 \<le> u \<and> u \<le> 90 then [u + 32] else if u = 8490 then js ''k'' else ch)
      | _ \<Rightarrow> ch)"

definition typeMap :: "JsString \<Rightarrow> PieceType option" where
  "typeMap key =
     (if key = js ''p'' then Some Pawn
      else if key = js ''n'' then Some Knight
      else if key = js ''b'' then Some Bishop
      else if key = js ''r'' then Some Rook
      else if key = js ''q'' then Some Queen
      else if key = js ''k'' then Some King
      else None)"

definition charToPiece :: "JsString \<Rightarrow> Piece option" where
  "charToPiece ch =
     (let isUpper = (ch = toUpperCase ch);
          c = (if isUpper then White else Black);
          lowerChar = toLowerCase ch
      in case typeMap lowerChar of
           None \<Rightarrow> None
         | Some t \<Rightarrow> Some \<lparr>ptype = t, color = c\<rparr>)"

definition typeChar :: "PieceType \<Rightarrow> char" where
  "typeChar t =
     (case t of Pawn \<Rightarrow> CHR ''p'' | Knight \<Rightarrow> CHR ''n'' | Bishop \<Rightarrow> CHR ''b''
      | Rook \<Rightarrow> CHR ''r'' | Queen \<Rightarrow> CHR ''q'' | King \<Rightarrow> CHR ''k'')"

text \<open>\<open>toUpperCase\<close> on the six lower-case letters of \<open>charMap\<close>.\<close>

definition upperChar :: "char \<Rightarrow> char" where
  "upperChar ch = char_of ((of_char ch :: int) - 32)"

definition pieceToChar :: "Piece \<Rightarrow> char" where
  "pieceToChar p = (if color p = White then upperChar (typeChar (ptype p)) else typeChar (ptype p))"

text \<open>
  \<open>/\\d/.test(char)\<close> and \<open>parseInt(char, 10)\<close> for one character of the loop: its
  value if it is one of the digits 0 to 9, \<open>None\<close> if the pattern does not match.
\<close>

definition digitOf :: "JsString \<Rightarrow> int option" where
  "digitOf ch =
     (case ch of
        [u] \<Rightarrow> (if 48 \<le> u \<and> u \<le> 57 then Some (u - 48) else None)
      | _ \<Rightarrow> None)"

text \<open>
  The loop over the characters of one rank: the board so far, the rank index (0 is
  rank 8) and the file index reached.
\<close>

fun parseRank :: "Board \<Rightarrow> int \<Rightarrow> JsString list \<Rightarrow> int \<Rightarrow> FenError + (Board \<times> int)" where
  "parseRank b rankIndex [] fileIndex = Inr (b, fileIndex)"
| "parseRank b rankIndex (ch # rest) fileIndex =
     (if fileIndex \<ge> 8 then Inl (TooManySquares (8 - rankIndex))
      else (case digitOf ch of
              Some emptySquares \<Rightarrow>
                (if emptySquares < 1 \<or> emptySquares > 8 then Inl (InvalidEmptyCount ch)
                 else parseRank b rankIndex rest (fileIndex + emptySquares))
            | None \<Rightarrow>
                (case charToPiece ch of
                   None \<Rightarrow> Inl (UnknownPieceChar ch)
                 | Some p \<Rightarrow>
                     parseRank (setPieceAt b (7 - rankIndex) fileIndex (Some p)) rankIndex rest
                       (fileIndex + 1))))"

fun parseRanks :: "Board \<Rightarrow> int \<Rightarrow> JsString list \<Rightarrow> FenError + Board" where
  "parseRanks b rankIndex [] = Inr b"
| "parseRanks b rankIndex (rank # ranks) =
     (case parseRank b rankIndex (codePoints rank) 0 of
        Inl e \<Rightarrow> Inl e
      | Inr (b', fileIndex) \<Rightarrow>
          (if fileIndex \<noteq> 8 then Inl (IncompleteRank (8 - rankIndex))
           else parseRanks b' (rankIndex + 1) ranks))"

definition parsePiecePlacement :: "JsString \<Rightarrow> FenError + Board" where
  "parsePiecePlacement placement =
     (let ranks = splitChar (of_char (CHR ''/'')) placement
      in if length ranks \<noteq> 8 then Inl (ExpectedEightRanks (length ranks))
         else parseRanks createEmptyBoard 0 ranks)"

definition parseActiveColor :: "JsString \<Rightarrow> FenError + Color" where
  "parseActiveColor c =
     (if c = js ''w'' then Inr White else if c = js ''b'' then Inr Black
      else Inl (InvalidActiveColor c))"

fun castlingChars :: "CastlingRights \<Rightarrow> JsString list \<Rightarrow> FenError + CastlingRights" where
  "castlingChars rights [] = Inr rights"
| "castlingChars rights (ch # rest) =
     (if ch = js ''K'' then castlingChars (rights\<lparr>whiteKingside := True\<rparr>) rest
      else if ch = js ''Q'' then castlingChars (rights\<lparr>whiteQueenside := True\<rparr>) rest
      else if ch = js ''k'' then castlingChars (rights\<lparr>blackKingside := True\<rparr>) rest
      else if ch = js ''q'' then castlingChars (rights\<lparr>blackQueenside := True\<rparr>) rest
      else Inl (InvalidCastlingChar ch))"

definition noCastling :: CastlingRights where
  "noCastling = \<lparr>whiteKingside = False, whiteQueenside = False,
                 blackKingside = False, blackQueenside = False\<rparr>"

definition parseCastlingRights :: "JsString \<Rightarrow> FenError + CastlingRights" where
  "parseCastlingRights cstr =
     (if cstr = js ''-'' then Inr noCastling else castlingChars noCastling (codePoints cstr))"

text \<open>
  The pattern \<open>^[a-h][36]$\<close>; a string that matches is a square, two ASCII characters.
\<close>

definition parseEnPassant :: "JsString \<Rightarrow> FenError + Square option" where
  "parseEnPassant epstr =
     (if epstr = js ''-'' then Inr None
      else (case epstr of
              [f, r] \<Rightarrow>
                (if of_char (CHR ''a'') \<le> f \<and> f \<le> of_char (CHR ''h'')
                    \<and> (r = of_char (CHR ''3'') \<or> r = of_char (CHR ''6''))
                 then Inr (Some [char_of f, char_of r]) else Inl (InvalidEnPassant epstr))
            | _ \<Rightarrow> Inl (InvalidEnPassant epstr)))"

text \<open>
  \<open>parseInt(s, 10)\<close> on a string with no leading white space: an optional sign, then
  the longest run of digits; \<open>NaN\<close> (here \<open>None\<close>) when there is no digit. The value is
  exact here; the source rounds beyond \<open>2^53\<close>.
\<close>

definition isDigitUnit :: "int \<Rightarrow> bool" where
  "isDigitUnit u = (48 \<le> u \<and> u \<le> 57)"

definition digitsValue :: "JsString \<Rightarrow> int" where
  "digitsValue ds = foldl (\<lambda>acc u. acc * 10 + (u - 48)) 0 ds"

definition parseInt :: "JsString \<Rightarrow> int option" where
  "parseInt s =
     (let sign = (case s of [] \<Rightarrow> 1 | u # r \<Rightarrow> (if u = of_char (CHR ''-'') then -1 else 1));
          body = (case s of
                    [] \<Rightarrow> []
                  | u # r \<Rightarrow>
                      (if u = of_char (CHR ''-'') \<or> u = of_char (CHR ''+'') then r else s));
          ds = takeWhile isDigitUnit body
      in if ds = [] then None else Some (sign * digitsValue ds))"

definition parseHalfMoveClock :: "JsString \<Rightarrow> FenError + int" where
  "parseHalfMoveClock halfMove =
     (case parseInt halfMove of
        None \<Rightarrow> Inl (InvalidHalfmoveClock halfMove)
      | Some clock \<Rightarrow> (if clock < 0 then Inl (InvalidHalfmoveClock halfMove) else Inr clock))"

definition parseFullMoveNumber :: "JsString \<Rightarrow> FenError + int" where
  "parseFullMoveNumber fullMove =
     (case parseInt fullMove of
        None \<Rightarrow> Inl (InvalidFullmoveNumber fullMove)
      | Some n \<Rightarrow> (if n < 1 then Inl (InvalidFullmoveNumber fullMove) else Inr n))"

record FenData =
  fen_board :: Board
  fen_turn :: Color
  fen_castlingRights :: CastlingRights
  fen_enPassantSquare :: "Square option"
  fen_halfMoveClock :: int
  fen_fullMoveNumber :: int

definition parse :: "JsString \<Rightarrow> FenError + FenData" where
  "parse fen =
     (let parts = splitSpaces (trim fen)
      in case parts of
           [piecePlacement, activeColor, castlingStr, enPassantStr, halfMove, fullMove] \<Rightarrow>
             (case parsePiecePlacement piecePlacement of
                Inl e \<Rightarrow> Inl e
              | Inr b \<Rightarrow>
             (case parseActiveColor activeColor of
                Inl e \<Rightarrow> Inl e
              | Inr turn \<Rightarrow>
             (case parseCastlingRights castlingStr of
                Inl e \<Rightarrow> Inl e
              | Inr rights \<Rightarrow>
             (case parseEnPassant enPassantStr of
                Inl e \<Rightarrow> Inl e
              | Inr ep \<Rightarrow>
             (case parseHalfMoveClock halfMove of
                Inl e \<Rightarrow> Inl e
              | Inr hm \<Rightarrow>
             (case parseFullMoveNumber fullMove of
                Inl e \<Rightarrow> Inl e
              | Inr fm \<Rightarrow>
                  Inr \<lparr>fen_board = b, fen_turn = turn, fen_castlingRights = rights,
                       fen_enPassantSquare = ep, fen_halfMoveClock = hm,
                       fen_fullMoveNumber = fm\<rparr>))))))
         | _ \<Rightarrow> Inl (ExpectedSixParts (length parts)))"

text \<open>\<open>n.toString()\<close> for an integer.\<close>

function digitsOf :: "nat \<Rightarrow> string" where
  "digitsOf n =
     (if n < 10 then [char_of (48 + int n)]
      else digitsOf (n div 10) @ [char_of (48 + int (n mod 10))])"
  by pat_completeness auto
termination
  by (relation "measure id") auto

declare digitsOf.simps [simp del]

definition toString :: "int \<Rightarrow> string" where
  "toString i = (if i < 0 then CHR ''-'' # digitsOf (nat (- i)) else digitsOf (nat i))"

text \<open>
  One rank of \<open>generatePiecePlacement\<close>: the squares left to write and the count of
  empty squares not yet written.
\<close>

fun rankString :: "Piece option list \<Rightarrow> int \<Rightarrow> string" where
  "rankString [] emptyCount = (if emptyCount > 0 then toString emptyCount else [])"
| "rankString (None # rest) emptyCount = rankString rest (emptyCount + 1)"
| "rankString (Some p # rest) emptyCount =
     (if emptyCount > 0 then toString emptyCount else []) @ pieceToChar p # rankString rest 0"

definition joinWith :: "string \<Rightarrow> string list \<Rightarrow> string" where
  "joinWith sep parts = (case parts of [] \<Rightarrow> [] | x # xs \<Rightarrow> x @ concat (map (\<lambda>y. sep @ y) xs))"

definition generatePiecePlacement :: "Board \<Rightarrow> string" where
  "generatePiecePlacement b =
     joinWith ''/'' (map (\<lambda>r. rankString (map (\<lambda>c. getPieceAt b r c) indices8) 0)
                        (rev indices8))"

definition generateCastlingRights :: "CastlingRights \<Rightarrow> string" where
  "generateCastlingRights rights =
     (let str = (if whiteKingside rights then ''K'' else [])
                @ (if whiteQueenside rights then ''Q'' else [])
                @ (if blackKingside rights then ''k'' else [])
                @ (if blackQueenside rights then ''q'' else [])
      in if str = [] then ''-'' else str)"

definition generate ::
  "Board \<Rightarrow> Color \<Rightarrow> CastlingRights \<Rightarrow> Square option \<Rightarrow> int \<Rightarrow> int \<Rightarrow> string" where
  "generate b turn rights ep halfMove fullMove =
     joinWith '' ''
       [generatePiecePlacement b,
        (if turn = White then ''w'' else ''b''),
        generateCastlingRights rights,
        (case ep of None \<Rightarrow> ''-'' | Some sq \<Rightarrow> sq),
        toString halfMove,
        toString fullMove]"

section \<open>Game state (engine/game)\<close>

text \<open>
  The repetition table is a \<open>Map\<close> from a key string to a count. The key is
  \<open>JSON.stringify(grid) | turn | JSON.stringify(castlingRights) | enPassantSquare\<close>;
  every piece object is written with its fields in the order \<open>type\<close>, \<open>color\<close> and
  every rights object in the order of its four flags, so two keys are equal exactly when
  the four components are. The model keeps the components. The table is an association
  list: \<open>Map.set\<close> keeps the place of a key that is already there.
\<close>

type_synonym PositionKey = "Board \<times> Color \<times> CastlingRights \<times> Square option"

record Game =
  board :: Board
  currentTurn :: Color
  moveHistory :: "Move list"
  castlingRights :: CastlingRights
  enPassantSquare :: "Square option"
  halfMoveClock :: int
  fullMoveNumber :: int
  gameStatus :: GameStatus
  positionHistory :: "(PositionKey \<times> int) list"

text \<open>
  The game holds a \<open>MoveGenerator\<close> built from its board, castling rights and
  en-passant square. The board and the rights object are shared with the generator, and
  the generator is rebuilt after every assignment to one of the three fields and before
  its next use (\<open>updateGameState\<close>, \<open>undo\<close>, \<open>reset\<close>, \<open>loadFen\<close>), so at each use it holds
  the game's current values.
\<close>

definition moveGenerator :: "Game \<Rightarrow> MoveGenerator" where
  "moveGenerator g =
     \<lparr>gen_board = board g, gen_castlingRights = castlingRights g,
      gen_enPassantSquare = enPassantSquare g\<rparr>"

definition allCastling :: CastlingRights where
  "allCastling = \<lparr>whiteKingside = True, whiteQueenside = True,
                  blackKingside = True, blackQueenside = True\<rparr>"

definition getPositionKey :: "Game \<Rightarrow> PositionKey" where
  "getPositionKey g = (board g, currentTurn g, castlingRights g, enPassantSquare g)"

definition repetitions :: "Game \<Rightarrow> int" where
  "repetitions g =
     (case map_of (positionHistory g) (getPositionKey g) of None \<Rightarrow> 0 | Some n \<Rightarrow> n)"

definition recordPosition :: "Game \<Rightarrow> Game" where
  "recordPosition g =
     g\<lparr>positionHistory :=
         AList.update (getPositionKey g) (repetitions g + 1) (positionHistory g)\<rparr>"

text \<open>The constructor; the argument is \<open>config?.fen\<close>.\<close>

definition newGame :: "JsString option \<Rightarrow> Game" where
  "newGame fen =
     (let g = \<lparr>board = createEmptyBoard, currentTurn = White, moveHistory = [],
               castlingRights = allCastling, enPassantSquare = None, halfMoveClock = 0,
               fullMoveNumber = 1, gameStatus = Active, positionHistory = []\<rparr>
      in if truthy fen then g else recordPosition (g\<lparr>board := setupStartingPosition\<rparr>))"

definition isEnPassantCapture :: "Game \<Rightarrow> Square \<Rightarrow> Square \<Rightarrow> bool" where
  "isEnPassantCapture g from to =
     (case getPiece (board g) from of
        None \<Rightarrow> False
      | Some p \<Rightarrow> ptype p = Pawn \<and> Some to = enPassantSquare g)"

definition isCastlingMove :: "Game \<Rightarrow> Square \<Rightarrow> Square \<Rightarrow> CastlingSide option" where
  "isCastlingMove g from to =
     (case getPiece (board g) from of
        None \<Rightarrow> None
      | Some p \<Rightarrow>
          (if ptype p = King
           then (if take 1 from = ''e'' \<and> take 1 to = ''g'' then Some Kingside
                 else if take 1 from = ''e'' \<and> take 1 to = ''c'' then Some Queenside
                 else None)
           else None))"

definition getDisambiguation :: "Game \<Rightarrow> Move \<Rightarrow> string" where
  "getDisambiguation g m =
     (if ptype (piece m) = Pawn \<or> ptype (piece m) = King then []
      else
        (let legalMoves = generateLegalMoves (moveGenerator g) (color (piece m));
             ambiguousMoves =
               filter (\<lambda>x. to_sq x = to_sq m \<and> ptype (piece x) = ptype (piece m)
                            \<and> from_sq x \<noteq> from_sq m) legalMoves
         in if ambiguousMoves = [] then []
            else if \<not> list_ex (\<lambda>x. take 1 (from_sq x) = take 1 (from_sq m)) ambiguousMoves
            then take 1 (from_sq m)
            else if \<not> list_ex (\<lambda>x. take 1 (drop 1 (from_sq x)) = take 1 (drop 1 (from_sq m)))
                        ambiguousMoves
            then take 1 (drop 1 (from_sq m))
            else from_sq m))"

definition pieceLetter :: "PieceType \<Rightarrow> string" where
  "pieceLetter t =
     (case t of King \<Rightarrow> ''K'' | Queen \<Rightarrow> ''Q'' | Rook \<Rightarrow> ''R'' | Bishop \<Rightarrow> ''B''
      | Knight \<Rightarrow> ''N'' | Pawn \<Rightarrow> [])"

text \<open>\<open>move.promotion[0]?.toUpperCase()\<close>: the first letter of the type's name.\<close>

definition promotionLetter :: "PieceType \<Rightarrow> string" where
  "promotionLetter t =
     (case t of King \<Rightarrow> ''K'' | Queen \<Rightarrow> ''Q'' | Rook \<Rightarrow> ''R'' | Bishop \<Rightarrow> ''B''
      | Knight \<Rightarrow> ''K'' | Pawn \<Rightarrow> ''P'')"

definition generateSan :: "Game \<Rightarrow> Move \<Rightarrow> string" where
  "generateSan g m =
     (case castling m of
        Some side \<Rightarrow> (if side = Kingside then ''O-O'' else ''O-O-O'')
      | None \<Rightarrow>
          pieceLetter (ptype (piece m))
          @ getDisambiguation g m
          @ (if captured m \<noteq> None \<or> enPassant m = Some True
             then (if ptype (piece m) = Pawn then take 1 (from_sq m) else []) @ ''x''
             else [])
          @ to_sq m
          @ (case promotion m of None \<Rightarrow> [] | Some t \<Rightarrow> ''='' @ promotionLetter t))"

definition executeCastling :: "Board \<Rightarrow> Move \<Rightarrow> Board" where
  "executeCastling b m =
     (let b1 = movePiece b (from_sq m) (to_sq m);
          rank = homeRank (color (piece m))
      in if castling m = Some Kingside
         then movePiece b1 [CHR ''h'', rank] [CHR ''f'', rank]
         else movePiece b1 [CHR ''a'', rank] [CHR ''d'', rank])"

definition undoCastling :: "Board \<Rightarrow> Move \<Rightarrow> Board" where
  "undoCastling b m =
     (let rank = homeRank (color (piece m))
      in if castling m = Some Kingside
         then movePiece b [CHR ''f'', rank] [CHR ''h'', rank]
         else movePiece b [CHR ''d'', rank] [CHR ''a'', rank])"

text \<open>The square of the pawn an en-passant capture takes: the file of \<open>to\<close>, rank 5 or 4.\<close>

definition capturedPawnSquare :: "Move \<Rightarrow> Square" where
  "capturedPawnSquare m =
     take 1 (to_sq m) @ (if color (piece m) = White then ''5'' else ''4'')"

definition executeMove :: "Board \<Rightarrow> Move \<Rightarrow> Board" where
  "executeMove b m =
     (let b1 = (if enPassant m = Some True then setPiece b (capturedPawnSquare m) None else b)
      in if castling m \<noteq> None then executeCastling b1 m
         else (case promotion m of
                 Some t \<Rightarrow>
                   setPiece (setPiece b1 (to_sq m) (Some \<lparr>ptype = t, color = color (piece m)\<rparr>))
                     (from_sq m) None
               | None \<Rightarrow> movePiece b1 (from_sq m) (to_sq m)))"

definition updateCastlingRights :: "CastlingRights \<Rightarrow> Move \<Rightarrow> CastlingRights" where
  "updateCastlingRights cr m =
     (let cr1 = (if ptype (piece m) = King
                 then (if color (piece m) = White
                       then cr\<lparr>whiteKingside := False, whiteQueenside := False\<rparr>
                       else cr\<lparr>blackKingside := False, blackQueenside := False\<rparr>)
                 else cr);
          cr2 = (if ptype (piece m) = Rook
                 then (let a = (if from_sq m = ''a1'' then cr1\<lparr>whiteQueenside := False\<rparr> else cr1);
                           b = (if from_sq m = ''h1'' then a\<lparr>whiteKingside := False\<rparr> else a);
                           c = (if from_sq m = ''a8'' then b\<lparr>blackQueenside := False\<rparr> else b)
                       in if from_sq m = ''h8'' then c\<lparr>blackKingside := False\<rparr> else c)
                 else cr1)
      in case captured m of
           None \<Rightarrow> cr2
         | Some cp \<Rightarrow>
             (if ptype cp = Rook
              then (let a = (if to_sq m = ''a1'' then cr2\<lparr>whiteQueenside := False\<rparr> else cr2);
                        b = (if to_sq m = ''h1'' then a\<lparr>whiteKingside := False\<rparr> else a);
                        c = (if to_sq m = ''a8'' then b\<lparr>blackQueenside := False\<rparr> else b)
                    in if to_sq m = ''h8'' then c\<lparr>blackKingside := False\<rparr> else c)
              else cr2))"

text \<open>\<open>parseInt(square.charAt(1))\<close>\<close>

definition rankOf :: "Square \<Rightarrow> int option" where
  "rankOf sq = parseInt (js (take 1 (drop 1 sq)))"

definition nextEnPassantSquare :: "Move \<Rightarrow> Square option" where
  "nextEnPassantSquare m =
     (if ptype (piece m) = Pawn
      then (case rankOf (from_sq m) of
              None \<Rightarrow> None
            | Some fromRank \<Rightarrow>
               (case rankOf (to_sq m) of
                  None \<Rightarrow> None
                | Some toRank \<Rightarrow>
                   (if abs (toRank - fromRank) = 2
                    then Some (take 1 (from_sq m)
                               @ toString (if color (piece m) = White then fromRank + 1
                                           else fromRank - 1))
                    else None)))
      else None)"

definition updateGameState :: "Game \<Rightarrow> Move \<Rightarrow> Game" where
  "updateGameState g m =
     (let turn = opposite (currentTurn g)
      in g\<lparr>halfMoveClock :=
             (if ptype (piece m) = Pawn \<or> captured m \<noteq> None then 0 else halfMoveClock g + 1),
           enPassantSquare := nextEnPassantSquare m,
           castlingRights := updateCastlingRights (castlingRights g) m,
           currentTurn := turn,
           fullMoveNumber := (if turn = White then fullMoveNumber g + 1 else fullMoveNumber g)\<rparr>)"

definition sameColorSquares :: "Square \<Rightarrow> Square \<Rightarrow> bool option" where
  "sameColorSquares s1 s2 =
     (case squareToCoords s1 of
        None \<Rightarrow> None
      | Some c1 \<Rightarrow>
          (case squareToCoords s2 of
             None \<Rightarrow> None
           | Some c2 \<Rightarrow> Some ((row c1 + col c1) mod 2 = (row c2 + col c2) mod 2)))"

definition isInsufficientMaterial :: "Game \<Rightarrow> bool" where
  "isInsufficientMaterial g =
     (let pieces = findPieces (board g) White @ findPieces (board g) Black;
          nonKings = filter (\<lambda>(sq, p). ptype p \<noteq> King) pieces;
          bishops = filter (\<lambda>(sq, p). ptype p = Bishop) pieces
      in if length pieces = 2 then True
         else if length pieces = 3 \<and> length nonKings = 1
         then list_ex (\<lambda>(sq, p). ptype p = Bishop \<or> ptype p = Knight) nonKings
         else if length pieces = 4 \<and> length bishops = 2
         then (case sameColorSquares (fst (bishops ! 0)) (fst (bishops ! 1)) of
                 None \<Rightarrow> False
               | Some sameColor \<Rightarrow> sameColor)
         else False)"

definition isInCheck :: "Game \<Rightarrow> bool" where
  "isInCheck g = isKingInCheck (board g) (currentTurn g)"

definition computeStatus :: "Game \<Rightarrow> GameStatus" where
  "computeStatus g =
     (if isCheckmate (moveGenerator g) (currentTurn g) then Checkmate
      else if isStalemate (moveGenerator g) (currentTurn g) then Stalemate
      else if halfMoveClock g \<ge> 100 then Fifty_move_rule
      else if repetitions g \<ge> 3 then Threefold_repetition
      else if isInsufficientMaterial g then Insufficient_material
      else if isInCheck g then Check
      else Active)"

definition updateGameStatus :: "Game \<Rightarrow> Game" where
  "updateGameStatus g = g\<lparr>gameStatus := computeStatus g\<rparr>"

definition requestedMove :: "Game \<Rightarrow> 'a MoveOptions_scheme \<Rightarrow> Piece \<Rightarrow> string option \<Rightarrow> bool option \<Rightarrow> bool option \<Rightarrow> Move" where
  "requestedMove g req p sn chk mate =
     \<lparr>from_sq = from_sq req, to_sq = to_sq req, promotion = promotion req, piece = p,
      captured = getPiece (board g) (to_sq req),
      castling = isCastlingMove g (from_sq req) (to_sq req),
      enPassant = Some (isEnPassantCapture g (from_sq req) (to_sq req)),
      san = sn, check_flag = chk, checkmate_flag = mate\<rparr>"

text \<open>The part of \<open>Game.move\<close> after validation: the game and the move object at the end.\<close>

definition performMove :: "Game \<Rightarrow> 'a MoveOptions_scheme \<Rightarrow> Piece \<Rightarrow> Game \<times> Move" where
  "performMove g req p =
     (let m0 = requestedMove g req p None None None;
          san0 = generateSan g m0;
          g1 = g\<lparr>board := executeMove (board g) m0\<rparr>;
          g2 = updateGameState g1 m0;
          g3 = recordPosition g2;
          g4 = updateGameStatus g3;
          isCheck = isKingInCheck (board g4) (currentTurn g4);
          isMate = (gameStatus g4 = Checkmate);
          m = (if isMate
               then requestedMove g req p (Some (san0 @ ''#'')) None (Some True)
               else if isCheck
               then requestedMove g req p (Some (san0 @ ''+'')) (Some True) None
               else requestedMove g req p (Some san0) None None)
      in (g4\<lparr>moveHistory := moveHistory g4 @ [m]\<rparr>, m))"

text \<open>
  \<open>Game.move\<close>: the game after the call and the value returned (\<open>None\<close> is \<open>null\<close>).
\<close>

definition Game_move :: "Game \<Rightarrow> 'a MoveOptions_scheme \<Rightarrow> Game \<times> Move option" where
  "Game_move g req =
     (let validation = validateMove (moveGenerator g) req (currentTurn g)
      in if \<not> valid validation then (g, None)
         else (case getPiece (board g) (from_sq req) of
                 None \<Rightarrow> (g, None)
               | Some p \<Rightarrow> (case performMove g req p of (g', m) \<Rightarrow> (g', Some m))))"

definition getLegalMoves :: "Game \<Rightarrow> Move list" where
  "getLegalMoves g = generateLegalMoves (moveGenerator g) (currentTurn g)"

definition getLegalMovesFrom :: "Game \<Rightarrow> Square \<Rightarrow> Move list" where
  "getLegalMovesFrom g square = generateLegalMovesFrom (moveGenerator g) square (currentTurn g)"

definition restoreGameStateFromMove :: "Game \<Rightarrow> Move \<Rightarrow> Game" where
  "restoreGameStateFromMove g m = g\<lparr>castlingRights := updateCastlingRights (castlingRights g) m\<rparr>"

definition restoreInitialGameState :: "Game \<Rightarrow> Game" where
  "restoreInitialGameState g =
     g\<lparr>castlingRights := allCastling, enPassantSquare := None,
       halfMoveClock := 0, fullMoveNumber := 1\<rparr>"

definition undoBoard :: "Board \<Rightarrow> Move \<Rightarrow> Board" where
  "undoBoard b m =
     (let b1 = setPiece b (from_sq m) (Some (piece m));
          b2 = (case captured m of
                  Some cp \<Rightarrow>
                    (if enPassant m = Some True
                     then setPiece (setPiece b1 (capturedPawnSquare m) (Some cp)) (to_sq m) None
                     else setPiece b1 (to_sq m) (Some cp))
                | None \<Rightarrow> setPiece b1 (to_sq m) None)
      in if castling m \<noteq> None then undoCastling b2 m else b2)"

definition undo :: "Game \<Rightarrow> Game \<times> Move option" where
  "undo g =
     (if moveHistory g = [] then (g, None)
      else
        (let m = last (moveHistory g);
             g1 = g\<lparr>moveHistory := butlast (moveHistory g), board := undoBoard (board g) m\<rparr>;
             g2 = (if moveHistory g1 \<noteq> [] then restoreGameStateFromMove g1 (last (moveHistory g1))
                   else restoreInitialGameState g1);
             g3 = g2\<lparr>currentTurn := opposite (currentTurn g2)\<rparr>
         in (updateGameStatus g3, Some m)))"

definition isGameOver :: "Game \<Rightarrow> bool" where
  "isGameOver g = (gameStatus g \<noteq> Active \<and> gameStatus g \<noteq> Check)"

definition reset :: "Game \<Rightarrow> Game" where
  "reset g =
     recordPosition
       (g\<lparr>board := setupStartingPosition, currentTurn := White, moveHistory := [],
          castlingRights := allCastling, enPassantSquare := None, halfMoveClock := 0,
          fullMoveNumber := 1, gameStatus := Active, positionHistory := []\<rparr>)"

text \<open>
  \<open>loadFen\<close>: the game after the call, and the error thrown if any. \<open>FenParser.parse\<close>
  is the first statement; it works on a board of its own.
\<close>

definition loadFen :: "Game \<Rightarrow> JsString \<Rightarrow> Game \<times> FenError option" where
  "loadFen g fen =
     (case parse fen of
        Inl e \<Rightarrow> (g, Some e)
      | Inr d \<Rightarrow>
          (updateGameStatus
             (recordPosition
                (g\<lparr>board := fen_board d, currentTurn := fen_turn d,
                   castlingRights := fen_castlingRights d,
                   enPassantSquare := fen_enPassantSquare d,
                   halfMoveClock := fen_halfMoveClock d,
                   fullMoveNumber := fen_fullMoveNumber d,
                   moveHistory := [], gameStatus := Active, positionHistory := []\<rparr>)),
           None))"

definition getFen :: "Game \<Rightarrow> string" where
  "getFen g =
     generate (board g) (currentTurn g) (castlingRights g) (enPassantSquare g)
       (halfMoveClock g) (fullMoveNumber g)"

section \<open>Position evaluation (ai/evaluation)\<close>

definition PIECE_VALUES :: "PieceType \<Rightarrow> int" where
  "PIECE_VALUES t =
     (case t of Pawn \<Rightarrow> 100 | Knight \<Rightarrow> 320 | Bishop \<Rightarrow> 330 | Rook \<Rightarrow> 500
      | Queen \<Rightarrow> 900 | King \<Rightarrow> 20000)"

definition PAWN_TABLE :: "int list list" where
  "PAWN_TABLE =
     [[0, 0, 0, 0, 0, 0, 0, 0],
      [50, 50, 50, 50, 50, 50, 50, 50],
      [10, 10, 20, 30, 30, 20, 10, 10],
      [5, 5, 10, 25, 25, 10, 5, 5],
      [0, 0, 0, 20, 20, 0, 0, 0],
      [5, -5, -10, 0, 0, -10, -5, 5],
      [5, 10, 10, -20, -20, 10, 10, 5],
      [0, 0, 0, 0, 0, 0, 0, 0]]"

definition KNIGHT_TABLE :: "int list list" where
  "KNIGHT_TABLE =
     [[-50, -40, -30, -30, -30, -30, -40, -50],
      [-40, -20, 0, 0, 0, 0, -20, -40],
      [-30, 0, 10, 15, 15, 10, 0, -30],
      [-30, 5, 15, 20, 20, 15, 5, -30],
      [-30, 0, 15, 20, 20, 15, 0, -30],
      [-30, 5, 10, 15, 15, 10, 5, -30],
      [-40, -20, 0, 5, 5, 0, -20, -40],
      [-50, -40, -30, -30, -30, -30, -40, -50]]"

definition BISHOP_TABLE :: "int list list" where
  "BISHOP_TABLE =
     [[-20, -10, -10, -10, -10, -10, -10, -20],
      [-10, 0, 0, 0, 0, 0, 0, -10],
      [-10, 0, 5, 10, 10, 5, 0, -10],
      [-10, 5, 5, 10, 10, 5, 5, -10],
      [-10, 0, 10, 10, 10, 10, 0, -10],
      [-10, 10, 10, 10, 10, 10, 10, -10],
      [-10, 5, 0, 0, 0, 0, 5, -10],
      [-20, -10, -10, -10, -10, -10, -10, -20]]"

definition ROOK_TABLE :: "int list list" where
  "ROOK_TABLE =
     [[0, 0, 0, 0, 0, 0, 0, 0],
      [5, 10, 10, 10, 10, 10, 10, 5],
      [-5, 0, 0, 0, 0, 0, 0, -5],
      [-5, 0, 0, 0, 0, 0, 0, -5],
      [-5, 0, 0, 0, 0, 0, 0, -5],
      [-5, 0, 0, 0, 0, 0, 0, -5],
      [-5, 0, 0, 0, 0, 0, 0, -5],
      [0, 0, 0, 5, 5, 0, 0, 0]]"

definition QUEEN_TABLE :: "int list list" where
  "QUEEN_TABLE =
     [[-20, -10, -10, -5, -5, -10, -10, -20],
      [-10, 0, 0, 0, 0, 0, 0, -10],
      [-10, 0, 5, 5, 5, 5, 0, -10],
      [-5, 0, 5, 5, 5, 5, 0, -5],
      [0, 0, 5, 5, 5, 5, 0, -5],
      [-10, 5, 5, 5, 5, 5, 0, -10],
      [-10, 0, 5, 0, 0, 0, 0, -10],
      [-20, -10, -10, -5, -5, -10, -10, -20]]"

definition KING_MIDDLE_TABLE :: "int list list" where
  "KING_MIDDLE_TABLE =
     [[-30, -40, -40, -50, -50, -40, -40, -30],
      [-30, -40, -40, -50, -50, -40, -40, -30],
      [-30, -40, -40, -50, -50, -40, -40, -30],
      [-30, -40, -40, -50, -50, -40, -40, -30],
      [-20, -30, -30, -40, -40, -30, -30, -20],
      [-10, -20, -20, -20, -20, -20, -20, -10],
      [20, 20, 0, 0, 0, 0, 20, 20],
      [20, 30, 10, 0, 0, 10, 30, 20]]"

definition KING_END_TABLE :: "int list list" where
  "KING_END_TABLE =
     [[-50, -40, -30, -20, -20, -30, -40, -50],
      [-30, -20, -10, 0, 0, -10, -20, -30],
      [-30, -10, 20, 30, 30, 20, -10, -30],
      [-30, -10, 30, 40, 40, 30, -10, -30],
      [-30, -10, 30, 40, 40, 30, -10, -30],
      [-30, -10, 20, 30, 30, 20, -10, -30],
      [-30, -30, 0, 0, 0, 0, -30, -30],
      [-50, -30, -30, -30, -30, -30, -30, -50]]"

definition PIECE_TABLES :: "PieceType \<Rightarrow> int list list" where
  "PIECE_TABLES t =
     (case t of Pawn \<Rightarrow> PAWN_TABLE | Knight \<Rightarrow> KNIGHT_TABLE | Bishop \<Rightarrow> BISHOP_TABLE
      | Rook \<Rightarrow> ROOK_TABLE | Queen \<Rightarrow> QUEEN_TABLE | King \<Rightarrow> KING_MIDDLE_TABLE)"

definition evaluateMaterial :: "Board \<Rightarrow> Color \<Rightarrow> int" where
  "evaluateMaterial b c =
     sum_list (map (\<lambda>(sq, p). PIECE_VALUES (ptype p)) (findPieces b c))
     - sum_list (map (\<lambda>(sq, p). PIECE_VALUES (ptype p)) (findPieces b (opposite c)))"

definition getPieceSquareValue :: "Piece \<Rightarrow> Square \<Rightarrow> bool \<Rightarrow> int" where
  "getPieceSquareValue p square endgame =
     (case squareToCoords square of
        None \<Rightarrow> 0
      | Some co \<Rightarrow>
          (let r = (if color p = Black then 7 - row co else row co);
               table = (if ptype p = King \<and> endgame then KING_END_TABLE
                        else PIECE_TABLES (ptype p));
               v = (case index_opt table r of
                      None \<Rightarrow> 0
                    | Some rw \<Rightarrow> (case index_opt rw (col co) of None \<Rightarrow> 0 | Some x \<Rightarrow> x))
           in if color p = White then v else - v))"

definition evaluatePosition :: "Board \<Rightarrow> bool \<Rightarrow> int" where
  "evaluatePosition b endgame =
     sum_list (map (\<lambda>r. sum_list (map (\<lambda>c.
       (case coordsToSquare r c of
          None \<Rightarrow> 0
        | Some square \<Rightarrow>
            (case getPiece b square of
               None \<Rightarrow> 0
             | Some p \<Rightarrow> getPieceSquareValue p square endgame))) indices8)) indices8)"

definition countType :: "(Square \<times> Piece) list \<Rightarrow> (PieceType \<Rightarrow> bool) \<Rightarrow> int" where
  "countType ps ok = int (length (filter (\<lambda>(sq, p). ok (ptype p)) ps))"

definition isEndgame :: "Board \<Rightarrow> bool" where
  "isEndgame b =
     (let whitePieces = findPieces b White;
          blackPieces = findPieces b Black;
          whiteQueens = countType whitePieces (\<lambda>t. t = Queen);
          whiteMinor = countType whitePieces (\<lambda>t. t = Knight \<or> t = Bishop);
          whiteRooks = countType whitePieces (\<lambda>t. t = Rook);
          blackQueens = countType blackPieces (\<lambda>t. t = Queen);
          blackMinor = countType blackPieces (\<lambda>t. t = Knight \<or> t = Bishop);
          blackRooks = countType blackPieces (\<lambda>t. t = Rook)
      in if whiteQueens = 0 \<and> blackQueens = 0 then True
         else if whiteQueens > 0 \<and> whiteMinor + whiteRooks \<le> 1
                 \<and> blackQueens > 0 \<and> blackMinor + blackRooks \<le> 1 then True
         else False)"

text \<open>
  \<open>materialScore + positionScore * 0.1\<close>. The source computes in IEEE doubles; the
  model takes \<open>0.1\<close> as the rational \<open>1/10\<close> and computes exactly, which agrees with
  the source whenever \<open>positionScore\<close> is 0.
\<close>

definition evaluateBoard :: "Board \<Rightarrow> Color \<Rightarrow> rat" where
  "evaluateBoard b c =
     of_int (evaluateMaterial b c) + of_int (evaluatePosition b (isEndgame b)) * (1 / 10)"

section \<open>Search engine (ai/engine, ai/minimax)\<close>

datatype AIDifficulty = Harmless | Easy | Medium | Hard | Expert | Godlike

record AIConfig =
  difficulty :: AIDifficulty
  maxThinkingTime :: int
  maxDepth :: int
  randomness :: rat

text \<open>A JavaScript number that may be \<open>-Infinity\<close> or \<open>Infinity\<close>.\<close>

datatype Num = NegInfinity | Fin rat | PosInfinity

fun num_le :: "Num \<Rightarrow> Num \<Rightarrow> bool" where
  "num_le NegInfinity y = True"
| "num_le (Fin x) NegInfinity = False"
| "num_le (Fin x) (Fin y) = (x \<le> y)"
| "num_le (Fin x) PosInfinity = True"
| "num_le PosInfinity PosInfinity = True"
| "num_le PosInfinity y = False"

definition num_max :: "Num \<Rightarrow> Num \<Rightarrow> Num" where
  "num_max x y = (if num_le x y then y else x)"

definition num_min :: "Num \<Rightarrow> Num \<Rightarrow> Num" where
  "num_min x y = (if num_le x y then x else y)"

record SearchStats =
  st_nodesEvaluated :: int
  st_pruneCount :: int
  st_maxDepthReached :: int


text \<open>
  The state a search call changes: the engine's \<open>stats\<close>, and how many times
  \<open>Date.now()\<close> has been read. The readings themselves are a parameter
  \<open>clock :: nat \<Rightarrow> int\<close>: the \<open>k\<close>-th call returns \<open>clock k\<close>.
\<close>

record SearchState =
  stats :: SearchStats
  ticks :: nat

definition dateNow :: "(nat \<Rightarrow> int) \<Rightarrow> SearchState \<Rightarrow> int \<times> SearchState" where
  "dateNow clock st = (clock (ticks st), st\<lparr>ticks := Suc (ticks st)\<rparr>)"

datatype SearchError = NoLegalMoves | CloneFailed FenError | TypeError

text \<open>\<open>cloneGame\<close>: a new game, then \<open>loadFen\<close> of the FEN of the game cloned.\<close>

definition cloneGame :: "Game \<Rightarrow> FenError + Game" where
  "cloneGame g =
     (case loadFen (newGame None) (js (getFen g)) of
        (g', None) \<Rightarrow> Inr g'
      | (g', Some e) \<Rightarrow> Inl e)"

text \<open>
  The loop over the legal moves of one node. \<open>rec\<close> is the recursive call of \<open>minimax\<close>
  one level down; \<open>None\<close> is a search that ran out of fuel.
\<close>

fun searchMoves ::
  "(Game \<Rightarrow> int \<Rightarrow> Num \<Rightarrow> Num \<Rightarrow> bool \<Rightarrow> SearchState \<Rightarrow> (SearchError + Num) option \<times> SearchState)
   \<Rightarrow> AIConfig \<Rightarrow> (nat \<Rightarrow> int) \<Rightarrow> int \<Rightarrow> Game \<Rightarrow> int \<Rightarrow> bool
   \<Rightarrow> Move list \<Rightarrow> Num \<Rightarrow> Num \<Rightarrow> Num \<Rightarrow> SearchState
   \<Rightarrow> (SearchError + Num) option \<times> SearchState" where
  "searchMoves rec cfg clock startTime g depth maximizingPlayer [] alpha beta best st =
     (Some (Inr best), st)"
| "searchMoves rec cfg clock startTime g depth maximizingPlayer (m # ms) alpha beta best st =
     (case cloneGame g of
        Inl e \<Rightarrow> (Some (Inl (CloneFailed e)), st)
      | Inr gameCopy \<Rightarrow>
         (case rec (fst (Game_move gameCopy m)) (depth - 1) alpha beta (\<not> maximizingPlayer) st of
            (None, st1) \<Rightarrow> (None, st1)
          | (Some (Inl e), st1) \<Rightarrow> (Some (Inl e), st1)
          | (Some (Inr evaluation), st1) \<Rightarrow>
             (let best1 = (if maximizingPlayer then num_max best evaluation
                           else num_min best evaluation);
                  alpha1 = (if maximizingPlayer then num_max alpha evaluation else alpha);
                  beta1 = (if maximizingPlayer then beta else num_min beta evaluation)
              in if num_le beta1 alpha1
                 then (Some (Inr best1),
                       st1\<lparr>stats := (stats st1)\<lparr>st_pruneCount := st_pruneCount (stats st1) + 1\<rparr>\<rparr>)
                 else (case dateNow clock st1 of
                         (now, st2) \<Rightarrow>
                           (if now - startTime > maxThinkingTime cfg then (Some (Inr best1), st2)
                            else searchMoves rec cfg clock startTime g depth maximizingPlayer ms
                                   alpha1 beta1 best1 st2)))))"

text \<open>
  \<open>minimax\<close>, with fuel for the depth of recursion: \<open>depth\<close> is any number (the
  configured \<open>maxDepth - 1\<close> at the root), and only \<open>depth = 0\<close>, a terminal status or the
  clock ends a branch.
\<close>

primrec minimax ::
  "nat \<Rightarrow> AIConfig \<Rightarrow> (nat \<Rightarrow> int) \<Rightarrow> int \<Rightarrow> Game \<Rightarrow> int \<Rightarrow> Num \<Rightarrow> Num \<Rightarrow> bool \<Rightarrow> SearchState
   \<Rightarrow> (SearchError + Num) option \<times> SearchState" where
  "minimax 0 cfg clock startTime = (\<lambda>g depth alpha beta maximizingPlayer st. (None, st))"
| "minimax (Suc fuel) cfg clock startTime = (\<lambda>g depth alpha beta maximizingPlayer st.
     (let st1 = st\<lparr>stats := (stats st)
                   \<lparr>st_nodesEvaluated := st_nodesEvaluated (stats st) + 1,
                    st_maxDepthReached :=
                      max (st_maxDepthReached (stats st)) (maxDepth cfg - depth)\<rparr>\<rparr>;
          status = gameStatus g
      in if status = Checkmate
         then (Some (Inr (Fin (of_int (if maximizingPlayer then -10000 + (maxDepth cfg - depth)
                                       else 10000 - (maxDepth cfg - depth))))), st1)
         else if status = Stalemate \<or> status = Draw then (Some (Inr (Fin 0)), st1)
         else
           (case (if depth = 0 then (True, st1)
                  else (case dateNow clock st1 of
                          (now, st2) \<Rightarrow> (now - startTime > maxThinkingTime cfg, st2))) of
              (stop, st2) \<Rightarrow>
                (if stop then (Some (Inr (Fin (evaluateBoard (board g) White))), st2)
                 else (let legalMoves = getLegalMoves g
                       in if legalMoves = [] then (Some (Inr (Fin 0)), st2)
                          else searchMoves (minimax fuel cfg clock startTime) cfg clock startTime
                                 g depth maximizingPlayer legalMoves alpha beta
                                 (if maximizingPlayer then NegInfinity else PosInfinity) st2)))))"

record OpeningMove =
  om_move :: string
  om_weight :: rat
  om_eco :: "string option"
  om_name :: "string option"
  om_variation :: "string option"













section \<open>Specification predicates and concrete positions\<close>

definition moveRequest :: "Square \<Rightarrow> Square \<Rightarrow> MoveOptions" where
  "moveRequest f t = \<lparr>from_sq = f, to_sq = t, promotion = None\<rparr>"

text \<open>
  After each request of a list, played in order: the status, how often the table has
  seen the position \<open>key\<close>, and whether the request was executed and led to \<open>key\<close>.
\<close>

fun statusTrace ::
  "PositionKey \<Rightarrow> Game \<Rightarrow> MoveOptions list \<Rightarrow> (GameStatus \<times> int \<times> bool) list" where
  "statusTrace key g [] = []"
| "statusTrace key g (r # rs) =
     (case Game_move g r of
        (g', res) \<Rightarrow>
          (gameStatus g',
           (case map_of (positionHistory g') key of None \<Rightarrow> 0 | Some n \<Rightarrow> n),
           res \<noteq> None \<and> getPositionKey g' = key) # statusTrace key g' rs)"

definition knightCycle :: "MoveOptions list" where
  "knightCycle = [moveRequest ''g1'' ''f3'', moveRequest ''g8'' ''f6'',
                  moveRequest ''f3'' ''g1'', moveRequest ''f6'' ''g8'']"

definition loaded :: "string \<Rightarrow> Game" where
  "loaded fen = fst (loadFen (newGame None) (js fen))"

text \<open>
  White king a5, white pawn e5, black rook h5, black pawn d7, black to move; then Black
  plays d7-d5, the double step past the white pawn.
\<close>

definition enPassantPin :: Game where
  "enPassantPin =
     fst (Game_move (loaded ''7k/3p4/8/K3P2r/8/8/8/8 b - - 0 1'') (moveRequest ''d7'' ''d5''))"

definition bareKings :: Game where
  "bareKings = loaded ''4k3/8/8/8/8/8/8/4K3 w - - 0 1''"

definition kingBishopVsKing :: Game where
  "kingBishopVsKing = loaded ''4k3/8/8/8/8/8/1B6/4K3 w - - 0 1''"

definition queenVsKing :: Board where
  "queenVsKing = board (loaded ''4k3/8/8/8/8/8/8/3QK3 w - - 0 1'')"

text \<open>White king a1, black king b3, black queen c2, White to move.\<close>

definition stalematePosition :: Game where
  "stalematePosition = loaded ''8/8/8/8/8/1k6/2q5/K7 w - - 0 1''"




text \<open>
  The phase rule in the words of the documentation of \<open>isEndgame\<close>: no queen on either
  side, or every side that has a queen has at most one other rook or minor piece.
\<close>

definition endgame_spec :: "Board \<Rightarrow> bool" where
  "endgame_spec b =
     (let whiteQueens = countType (findPieces b White) (\<lambda>t. t = Queen);
          whiteOthers = countType (findPieces b White) (\<lambda>t. t = Knight \<or> t = Bishop \<or> t = Rook);
          blackQueens = countType (findPieces b Black) (\<lambda>t. t = Queen);
          blackOthers = countType (findPieces b Black) (\<lambda>t. t = Knight \<or> t = Bishop \<or> t = Rook)
      in (whiteQueens = 0 \<and> blackQueens = 0)
         \<or> ((whiteQueens = 0 \<or> whiteOthers \<le> 1) \<and> (blackQueens = 0 \<or> blackOthers \<le> 1)))"

text \<open>
  A structurally malformed FEN, in the words of the claim about \<open>loadFen\<close>: the number
  of fields is not 6, the number of ranks is not 8, a rank does not hold 8 squares (too
  long or incomplete), or a rank has a character that is neither a digit nor one of the
  twelve piece letters. A digit counts for its value, any other character for one square.
\<close>

definition pieceLetters :: "JsString list" where
  "pieceLetters = map (\<lambda>c. [of_char c]) ''PNBRQKpnbrqk''"

fun rankWidth :: "JsString list \<Rightarrow> int" where
  "rankWidth [] = 0"
| "rankWidth (ch # rest) = (case digitOf ch of Some n \<Rightarrow> n | None \<Rightarrow> 1) + rankWidth rest"

definition unknownPieceChar :: "JsString \<Rightarrow> bool" where
  "unknownPieceChar ch = (digitOf ch = None \<and> ch \<notin> set pieceLetters)"

definition fenFields :: "JsString \<Rightarrow> JsString list" where
  "fenFields fen = splitSpaces (trim fen)"

definition fenRanks :: "JsString \<Rightarrow> JsString list list" where
  "fenRanks fen = map codePoints (splitChar (of_char (CHR ''/'')) (hd (fenFields fen)))"

definition malformedFen :: "JsString \<Rightarrow> bool" where
  "malformedFen fen =
     (length (fenFields fen) \<noteq> 6
      \<or> length (fenRanks fen) \<noteq> 8
      \<or> list_ex (\<lambda>rank. rankWidth rank \<noteq> 8) (fenRanks fen)
      \<or> list_ex (list_ex unknownPieceChar) (fenRanks fen))"

text \<open>
  The position of the two bare kings, with U+212A KELVIN SIGN written where the white
  king stands.
\<close>

definition kelvinSign :: int where
  "kelvinSign = 8490"

definition kelvinFen :: JsString where
  "kelvinFen = js ''4k3/8/8/8/8/8/8/4'' @ [kelvinSign] @ js ''3 w - - 0 1''"

text \<open>The six error texts of \<open>validateMove\<close>, in the order of its checks.\<close>

definition rejectionReasons :: "string list" where
  "rejectionReasons =
     [''Invalid square'', ''No piece at starting square'', ''Not your piece'',
      ''Cannot move to the same square'', ''Illegal move'', ''Pawn promotion required'']"

text \<open>
  The request names a move of the list: same squares, and the promotion asked for if
  one was asked for.
\<close>

definition requestIn :: "'a MoveOptions_scheme \<Rightarrow> Move list \<Rightarrow> bool" where
  "requestIn req ms =
     list_ex (\<lambda>m. from_sq m = from_sq req \<and> to_sq m = to_sq req
                   \<and> (promotion req = None \<or> promotion m = promotion req)) ms"

definition promotionSquare :: "Square \<Rightarrow> Color \<Rightarrow> bool" where
  "promotionSquare sq c =
     (case squareToCoords sq of None \<Rightarrow> False | Some co \<Rightarrow> isPawnPromotionRank (row co) c)"

text \<open>White pawn a7, white king a1, black king h8, White to move.\<close>

definition promotionPosition :: Game where
  "promotionPosition = loaded ''7k/P7/8/8/8/8/8/K7 w - - 0 1''"

section \<open>Basic facts\<close>

lemma gen_board_moveGenerator [simp]: "gen_board (moveGenerator g) = board g"
  by (simp add: moveGenerator_def)

lemma squareToCoords_range:
  "squareToCoords sq = Some co \<Longrightarrow> 0 \<le> row co \<and> row co \<le> 7 \<and> 0 \<le> col co \<and> col co \<le> 7"
  by (auto simp: squareToCoords_def Let_def split: list.splits option.splits if_splits)

section \<open>Legal moves carry no notation\<close>




lemma set_pushIfPresent [simp]: "m \<in> set (pushIfPresent x) \<longleftrightarrow> x = Some m"
  by (cases x) (auto simp: pushIfPresent_def)






section \<open>The search engine on positions with no or one legal move\<close>







section \<open>Check safety of the generated moves\<close>

text \<open>
  C1 (the code departs from the claim). \<open>getEnPassantMove\<close> tests the capture with
  \<open>isMoveLegal\<close>, which only moves the capturing pawn on the clone and leaves the
  captured pawn standing, although both say that they check that the move does not leave
  the king in check. In the position below (reached by \<open>loadFen\<close> and one move of Black)
  White is not in check and \<open>isMoveLegal\<close> accepts e5-d6, so the en-passant capture
  e5xd6 is in the legal-move set; \<open>Game.move\<close> executes it, and afterwards the white
  king on a5 is attacked by the rook on h5 along the emptied fifth rank.
\<close>

theorem C1_en_passant_leaves_king_attacked:
  "(let g = enPassantPin
    in (gameStatus g, enPassantSquare g, isKingInCheck (board g) White,
        isMoveLegal (moveGenerator g) ''e5'' ''d6'' White,
        map (\<lambda>m. (from_sq m, to_sq m)) (filter (\<lambda>m. enPassant m = Some True) (getLegalMoves g)),
        (case Game_move g (moveRequest ''e5'' ''d6'') of
           (g', res) \<Rightarrow> (res \<noteq> None, isKingInCheck (board g') White, getFen g'))))
   = (Active, Some ''d6'', False, True, [(''e5'', ''d6'')],
      (True, True, ''7k/8/3P4/K6r/8/8/8/8 b - - 0 2''))"
  by code_simp

section \<open>Undo\<close>

text \<open>
  C2 (the code departs from the claim). After 1. e4 the en-passant square is e3, the
  half-move clock 0 and the full-move number 1. One more accepted move (Ng8-f6) and one
  \<open>undo\<close> restore the board, the turn and the castling rights, but leave the
  en-passant square empty, the clock at 1 and the move number at 2:
  \<open>restoreGameStateFromMove\<close> only reapplies \<open>updateCastlingRights\<close>.
\<close>

theorem C2_undo_keeps_later_state:
  "(let g0 = fst (Game_move (newGame None) (moveRequest ''e2'' ''e4''))
    in case Game_move g0 (moveRequest ''g8'' ''f6'') of
         (g1, res) \<Rightarrow>
           (case undo g1 of
              (g2, undone) \<Rightarrow>
                (res \<noteq> None, undone \<noteq> None, board g2 = board g0,
                 currentTurn g2 = currentTurn g0, castlingRights g2 = castlingRights g0,
                 (enPassantSquare g0, enPassantSquare g2),
                 (halfMoveClock g0, halfMoveClock g2),
                 (fullMoveNumber g0, fullMoveNumber g2))))
   = (True, True, True, True, True, (Some ''e3'', None), (0, 1), (1, 2))"
  by code_simp

section \<open>Moves in a finished game\<close>

text \<open>
  C3, the claim as stated fails: with the two bare kings the status is
  \<open>insufficient_material\<close> and \<open>isGameOver\<close> holds, yet \<open>Game.move\<close> executes Ke1-e2
  and hands the turn to Black.
\<close>

theorem C3_counterexample:
  "(let g = bareKings
    in (gameStatus g, isGameOver g,
        (case Game_move g (moveRequest ''e1'' ''e2'') of
           (g', res) \<Rightarrow> (res \<noteq> None, currentTurn g, currentTurn g', getFen g'))))
   = (Insufficient_material, True, True, White, Black, ''4k3/8/8/8/8/8/4K3/8 b - - 1 1'')"
  by code_simp

lemma squareToCoords_inverse:
  assumes "squareToCoords sq = Some co"
  shows "coordsToSquare (row co) (col co) = Some sq"
proof -
  from assms obtain fl rk where sq: "sq = [fl, rk]"
    by (auto simp: squareToCoords_def split: list.splits)
  from assms sq obtain n where n: "parseIntChar rk = Some n"
    by (cases "parseIntChar rk") (auto simp: squareToCoords_def)
  from assms sq n have co: "col co = of_char fl - of_char (CHR ''a'')" "row co = n - 1"
    by (auto simp: squareToCoords_def Let_def split: if_splits)
  from n have nv: "n = of_char rk - 48"
    by (auto simp: parseIntChar_def split: if_splits)
  have c1: "(of_char (CHR ''a'') :: int) + col co = of_char fl"
    using co by (simp only: add_diff_cancel_left' diff_add_cancel add.commute)
  have c2: "48 + (row co + 1) = (of_char rk :: int)"
    using co nv by arith
  have "coordsToSquare (row co) (col co) =
          Some [char_of ((of_char (CHR ''a'') :: int) + col co), char_of (48 + (row co + 1))]"
    using squareToCoords_range [OF assms] unfolding coordsToSquare_def by auto
  then show ?thesis
    unfolding c1 c2 sq by (simp only: char_of_char)
qed

lemma in_indices8: "0 \<le> i \<Longrightarrow> i \<le> 7 \<Longrightarrow> i \<in> set indices8"
  unfolding indices8_def by (simp; presburger)

lemma in_concat_map: "x \<in> set (f a) \<Longrightarrow> a \<in> set as \<Longrightarrow> x \<in> set (concat (map f as))"
  by auto

lemma squaresOf_member:
  assumes "cell b r c = Some p" "ok p" "coordsToSquare r c = Some s"
    "r \<in> set indices8" "c \<in> set indices8"
  shows "(s, p) \<in> set (squaresOf b ok)"
proof -
  have "squareEntry b ok r c = [(s, p)]"
    using assms(1-3) by (simp add: squareEntry_def)
  then have "(s, p) \<in> set (squareEntry b ok r c)" by simp
  then have "(s, p) \<in> set (concat (map (squareEntry b ok r) indices8))"
    using assms(5) by (rule in_concat_map)
  then show ?thesis
    unfolding squaresOf_def using assms(4) by (rule in_concat_map)
qed

text \<open>A piece that \<open>getPiece\<close> finds on a square is listed by \<open>findPieces\<close> under that square.\<close>

lemma origin_in_findPieces:
  assumes "getPiece b sq = Some p" "color p = c"
  shows "(sq, p) \<in> set (findPieces b c)"
proof -
  from assms obtain co where co: "squareToCoords sq = Some co"
    by (cases "squareToCoords sq") (auto simp: getPiece_def)
  with assms have "cell b (row co) (col co) = Some p" by (simp add: getPiece_def)
  moreover have "row co \<in> set indices8" "col co \<in> set indices8"
    using squareToCoords_range [OF co] by (auto intro: in_indices8)
  ultimately show ?thesis
    unfolding findPieces_def
    using assms(2) squareToCoords_inverse [OF co]
      squaresOf_member [of b "row co" "col co" p "\<lambda>p. color p = c" sq]
    by simp
qed

lemma no_moves_none_from:
  assumes "generateLegalMoves mg c = []" "getPiece (gen_board mg) sq = Some p" "color p = c"
  shows "generateLegalMovesFrom mg sq c = []"
proof -
  from origin_in_findPieces [OF assms(2,3)]
  have "(sq, p) \<in> set (findPieces (gen_board mg) c)" .
  with assms(1) show ?thesis
    unfolding generateLegalMoves_def by (auto simp: concat_eq_Nil_conv)
qed

lemma no_moves_invalid:
  assumes "generateLegalMoves mg c = []"
  shows "\<not> valid (validateMove mg req c)"
proof (cases "getPiece (gen_board mg) (from_sq req)")
  case None
  then show ?thesis by (simp add: validateMove_def rejected_def)
next
  case (Some p)
  show ?thesis
  proof (cases "color p = c")
    case True
    from no_moves_none_from [OF assms Some True]
    show ?thesis using Some True by (simp add: validateMove_def rejected_def)
  next
    case False
    then show ?thesis using Some by (simp add: validateMove_def rejected_def)
  qed
qed

lemma terminal_no_moves:
  assumes "computeStatus g = Checkmate \<or> computeStatus g = Stalemate"
  shows "generateLegalMoves (moveGenerator g) (currentTurn g) = []"
  using assms
  by (auto simp: computeStatus_def isCheckmate_def isStalemate_def split: if_splits)

text \<open>
  The status field is current, \<open>gameStatus g = computeStatus g\<close>, after every executed
  move, every undo and every successful load: each ends with \<open>updateGameStatus\<close>, and
  the status does not depend on the move history.
\<close>

lemma computeStatus_cong:
  "board g' = board g \<Longrightarrow> currentTurn g' = currentTurn g \<Longrightarrow> castlingRights g' = castlingRights g
   \<Longrightarrow> enPassantSquare g' = enPassantSquare g \<Longrightarrow> halfMoveClock g' = halfMoveClock g
   \<Longrightarrow> positionHistory g' = positionHistory g \<Longrightarrow> computeStatus g' = computeStatus g"
  by (simp add: computeStatus_def moveGenerator_def repetitions_def getPositionKey_def
      isInsufficientMaterial_def isInCheck_def)

lemma computeStatus_moveHistory [simp]: "computeStatus (g\<lparr>moveHistory := h\<rparr>) = computeStatus g"
  by (rule computeStatus_cong) simp_all

lemma computeStatus_gameStatus [simp]: "computeStatus (g\<lparr>gameStatus := s\<rparr>) = computeStatus g"
  by (rule computeStatus_cong) simp_all

lemma status_current_updateGameStatus:
  "gameStatus (updateGameStatus g) = computeStatus (updateGameStatus g)"
  by (simp add: updateGameStatus_def)

lemma performMove_status:
  "gameStatus (fst (performMove g req p)) = computeStatus (fst (performMove g req p))"
proof -
  obtain g3 h where "fst (performMove g req p) = (updateGameStatus g3)\<lparr>moveHistory := h\<rparr>"
    unfolding performMove_def Let_def fst_conv by blast
  then show ?thesis by (simp add: status_current_updateGameStatus del: computeStatus_gameStatus)
qed

lemma status_current_move:
  assumes "Game_move g req = (g', Some m)"
  shows "gameStatus g' = computeStatus g'"
proof -
  have "\<exists>p. g' = fst (performMove g req p)"
  proof (cases "valid (validateMove (moveGenerator g) req (currentTurn g))")
    case False
    with assms show ?thesis by (simp add: Game_move_def Let_def)
  next
    case True
    show ?thesis
    proof (cases "getPiece (board g) (from_sq req)")
      case None
      with assms True show ?thesis by (simp add: Game_move_def Let_def)
    next
      case (Some p)
      with assms True have "g' = fst (performMove g req p)"
        by (cases "performMove g req p") (simp add: Game_move_def Let_def)
      then show ?thesis ..
    qed
  qed
  then show ?thesis using performMove_status by blast
qed

lemma status_current_undo:
  "undo g = (g', Some m) \<Longrightarrow> gameStatus g' = computeStatus g'"
  by (cases "moveHistory g = []")
     (auto simp: undo_def Let_def status_current_updateGameStatus)

lemma status_current_loadFen:
  "loadFen g fen = (g', None) \<Longrightarrow> gameStatus g' = computeStatus g'"
  by (cases "parse fen") (auto simp: loadFen_def status_current_updateGameStatus)

text \<open>
  C3, amended: when the status is current and is checkmate or stalemate, every request
  to \<open>Game.move\<close> is rejected and the game is unchanged (there is no legal move to
  match). The three draw statuses do not stop \<open>Game.move\<close>; the request layer refuses
  moves there by testing \<open>isGameOver\<close> itself.
\<close>

theorem C3_checkmate_stalemate_reject_moves:
  "gameStatus g = computeStatus g \<Longrightarrow> gameStatus g = Checkmate \<or> gameStatus g = Stalemate \<Longrightarrow>
   Game_move g req = (g, None)"
proof -
  assume "gameStatus g = computeStatus g" "gameStatus g = Checkmate \<or> gameStatus g = Stalemate"
  then have "generateLegalMoves (moveGenerator g) (currentTurn g) = []"
    using terminal_no_moves [of g] by simp
  from no_moves_invalid [OF this, of req] show ?thesis
    by (simp add: Game_move_def Let_def)
qed

lemma stalemate_status:
  "gameStatus stalematePosition = Stalemate" "computeStatus stalematePosition = Stalemate"
  by code_simp+

text \<open>Witness for C3: the stalemate position, and the request Ka1-a2.\<close>

theorem C3_witness:
  "gameStatus stalematePosition = computeStatus stalematePosition
   \<and> (gameStatus stalematePosition = Checkmate \<or> gameStatus stalematePosition = Stalemate)
   \<and> Game_move stalematePosition (moveRequest ''a1'' ''a2'') = (stalematePosition, None)"
  using stalemate_status
    C3_checkmate_stalemate_reject_moves [of stalematePosition "moveRequest ''a1'' ''a2''"]
  by simp

section \<open>Rejected requests\<close>

lemma matchesRequest_iff:
  "matchesRequest req m \<longleftrightarrow>
     from_sq m = from_sq req \<and> to_sq m = to_sq req
     \<and> (promotion req = None \<or> promotion m = promotion req)"
  by (auto simp: matchesRequest_def)

lemma find_matches: "(find (matchesRequest req) ms = None) = (\<not> requestIn req ms)"
  by (auto simp: find_None_iff requestIn_def list_ex_iff matchesRequest_iff)

lemma invalid_move_keeps_game:
  "\<not> valid (validateMove (moveGenerator g) req (currentTurn g)) \<Longrightarrow> Game_move g req = (g, None)"
  by (simp add: Game_move_def Let_def)

lemma validateMove_reasons:
  "\<not> valid (validateMove mg req c) \<Longrightarrow>
   (\<exists>r \<in> set rejectionReasons. validateMove mg req c = rejected r)"
  by (auto simp: validateMove_def rejectionReasons_def rejected_def
      split: option.splits if_splits)

text \<open>
  C4. \<open>validateMove\<close> is a total function that returns a value: for a malformed square
  label, an empty origin, a piece of the other side, a move to the same square, a move
  that is not among the legal moves from the origin, and a promotion move without the
  promotion piece, it returns the rejection with the reason of that case. Every
  rejection carries one of the six reasons, and \<open>Game.move\<close> then returns \<open>null\<close> and
  leaves the whole game (board, turn, castling rights, en-passant square, counters,
  history, repetition table, status) as it was.
\<close>

theorem C4_invalid_requests_rejected:
  fixes g :: Game and req :: "'a MoveOptions_scheme"
  shows
  "(let v = validateMove (moveGenerator g) req (currentTurn g);
        squaresOk = (isValidSquare (from_sq req) \<and> isValidSquare (to_sq req));
        origin = getPiece (board g) (from_sq req);
        ownPiece = (case origin of None \<Rightarrow> False | Some p \<Rightarrow> color p = currentTurn g);
        listed = requestIn req (getLegalMovesFrom g (from_sq req))
    in (\<not> squaresOk \<longrightarrow> v = rejected ''Invalid square'')
     \<and> (squaresOk \<and> origin = None \<longrightarrow> v = rejected ''No piece at starting square'')
     \<and> (squaresOk \<and> origin \<noteq> None \<and> \<not> ownPiece \<longrightarrow> v = rejected ''Not your piece'')
     \<and> (squaresOk \<and> ownPiece \<and> from_sq req = to_sq req
          \<longrightarrow> v = rejected ''Cannot move to the same square'')
     \<and> (squaresOk \<and> ownPiece \<and> from_sq req \<noteq> to_sq req \<and> \<not> listed
          \<longrightarrow> v = rejected ''Illegal move'')
     \<and> (squaresOk \<and> ownPiece \<and> from_sq req \<noteq> to_sq req \<and> listed
          \<and> map_option ptype origin = Some Pawn
          \<and> promotionSquare (to_sq req) (currentTurn g) \<and> promotion req = None
          \<longrightarrow> v = rejected ''Pawn promotion required'')
     \<and> (\<not> valid v \<longrightarrow>
          (\<exists>r \<in> set rejectionReasons. v = rejected r) \<and> Game_move g req = (g, None)))"
proof -
  have "\<not> valid (validateMove (moveGenerator g) req (currentTurn g)) \<longrightarrow>
          (\<exists>r \<in> set rejectionReasons.
              validateMove (moveGenerator g) req (currentTurn g) = rejected r)
          \<and> Game_move g req = (g, None)"
    using validateMove_reasons invalid_move_keeps_game by blast
  moreover have "\<not> (isValidSquare (from_sq req) \<and> isValidSquare (to_sq req)) \<longrightarrow>
      validateMove (moveGenerator g) req (currentTurn g) = rejected ''Invalid square''"
    by (auto simp: validateMove_def)
  moreover have "isValidSquare (from_sq req) \<and> isValidSquare (to_sq req)
      \<and> getPiece (board g) (from_sq req) = None \<longrightarrow>
      validateMove (moveGenerator g) req (currentTurn g) = rejected ''No piece at starting square''"
    by (auto simp: validateMove_def)
  moreover have "isValidSquare (from_sq req) \<and> isValidSquare (to_sq req)
      \<and> getPiece (board g) (from_sq req) \<noteq> None
      \<and> \<not> (case getPiece (board g) (from_sq req) of None \<Rightarrow> False
             | Some p \<Rightarrow> color p = currentTurn g) \<longrightarrow>
      validateMove (moveGenerator g) req (currentTurn g) = rejected ''Not your piece''"
    by (auto simp: validateMove_def split: option.splits)
  moreover have "isValidSquare (from_sq req) \<and> isValidSquare (to_sq req)
      \<and> (case getPiece (board g) (from_sq req) of None \<Rightarrow> False
             | Some p \<Rightarrow> color p = currentTurn g) \<and> from_sq req = to_sq req \<longrightarrow>
      validateMove (moveGenerator g) req (currentTurn g) = rejected ''Cannot move to the same square''"
    by (auto simp: validateMove_def split: option.splits)
  moreover have "isValidSquare (from_sq req) \<and> isValidSquare (to_sq req)
      \<and> (case getPiece (board g) (from_sq req) of None \<Rightarrow> False
             | Some p \<Rightarrow> color p = currentTurn g) \<and> from_sq req \<noteq> to_sq req
      \<and> \<not> requestIn req (getLegalMovesFrom g (from_sq req)) \<longrightarrow>
      validateMove (moveGenerator g) req (currentTurn g) = rejected ''Illegal move''"
  proof (intro impI)
    assume a: "isValidSquare (from_sq req) \<and> isValidSquare (to_sq req)
      \<and> (case getPiece (board g) (from_sq req) of None \<Rightarrow> False
             | Some p \<Rightarrow> color p = currentTurn g) \<and> from_sq req \<noteq> to_sq req
      \<and> \<not> requestIn req (getLegalMovesFrom g (from_sq req))"
    then obtain p where p: "getPiece (board g) (from_sq req) = Some p" "color p = currentTurn g"
      by (cases "getPiece (board g) (from_sq req)") auto
    from a have "find (matchesRequest req)
        (generateLegalMovesFrom (moveGenerator g) (from_sq req) (currentTurn g)) = None"
      using find_matches [of req "getLegalMovesFrom g (from_sq req)"]
      by (simp add: getLegalMovesFrom_def)
    with a p show "validateMove (moveGenerator g) req (currentTurn g) = rejected ''Illegal move''"
      by (simp add: validateMove_def)
  qed
  moreover have "isValidSquare (from_sq req) \<and> isValidSquare (to_sq req)
      \<and> (case getPiece (board g) (from_sq req) of None \<Rightarrow> False
             | Some p \<Rightarrow> color p = currentTurn g) \<and> from_sq req \<noteq> to_sq req
      \<and> requestIn req (getLegalMovesFrom g (from_sq req))
      \<and> map_option ptype (getPiece (board g) (from_sq req)) = Some Pawn
      \<and> promotionSquare (to_sq req) (currentTurn g) \<and> promotion req = None \<longrightarrow>
      validateMove (moveGenerator g) req (currentTurn g) = rejected ''Pawn promotion required''"
  proof (intro impI)
    assume a: "isValidSquare (from_sq req) \<and> isValidSquare (to_sq req)
      \<and> (case getPiece (board g) (from_sq req) of None \<Rightarrow> False
             | Some p \<Rightarrow> color p = currentTurn g) \<and> from_sq req \<noteq> to_sq req
      \<and> requestIn req (getLegalMovesFrom g (from_sq req))
      \<and> map_option ptype (getPiece (board g) (from_sq req)) = Some Pawn
      \<and> promotionSquare (to_sq req) (currentTurn g) \<and> promotion req = None"
    then obtain p where p: "getPiece (board g) (from_sq req) = Some p" "color p = currentTurn g"
      "ptype p = Pawn" by (cases "getPiece (board g) (from_sq req)") auto
    from a obtain mm where mm: "find (matchesRequest req)
        (generateLegalMovesFrom (moveGenerator g) (from_sq req) (currentTurn g)) = Some mm"
      using find_matches [of req "getLegalMovesFrom g (from_sq req)"]
      by (auto simp: getLegalMovesFrom_def)
    have "isPawnPromotionRequired (moveGenerator g) (from_sq req) (to_sq req) (currentTurn g)"
      using a p by (simp add: isPawnPromotionRequired_def promotionSquare_def)
    with a p mm show "validateMove (moveGenerator g) req (currentTurn g)
        = rejected ''Pawn promotion required''"
      by (simp add: validateMove_def)
  qed
  ultimately show ?thesis unfolding Let_def by blast
qed

lemma c4_premises:
  "\<not> (isValidSquare (from_sq (moveRequest ''e9'' ''e4''))
       \<and> isValidSquare (to_sq (moveRequest ''e9'' ''e4'')))"
  "isValidSquare (from_sq (moveRequest ''e4'' ''e5'')) \<and> isValidSquare (to_sq (moveRequest ''e4'' ''e5''))
   \<and> getPiece (board (newGame None)) (from_sq (moveRequest ''e4'' ''e5'')) = None"
  "isValidSquare (from_sq (moveRequest ''e7'' ''e5'')) \<and> isValidSquare (to_sq (moveRequest ''e7'' ''e5''))
   \<and> getPiece (board (newGame None)) (from_sq (moveRequest ''e7'' ''e5'')) \<noteq> None
   \<and> \<not> (case getPiece (board (newGame None)) (from_sq (moveRequest ''e7'' ''e5'')) of
           None \<Rightarrow> False | Some p \<Rightarrow> color p = currentTurn (newGame None))"
  "isValidSquare (from_sq (moveRequest ''e2'' ''e2'')) \<and> isValidSquare (to_sq (moveRequest ''e2'' ''e2''))
   \<and> (case getPiece (board (newGame None)) (from_sq (moveRequest ''e2'' ''e2'')) of
           None \<Rightarrow> False | Some p \<Rightarrow> color p = currentTurn (newGame None))
   \<and> from_sq (moveRequest ''e2'' ''e2'') = to_sq (moveRequest ''e2'' ''e2'')"
  "isValidSquare (from_sq (moveRequest ''e2'' ''e5'')) \<and> isValidSquare (to_sq (moveRequest ''e2'' ''e5''))
   \<and> (case getPiece (board (newGame None)) (from_sq (moveRequest ''e2'' ''e5'')) of
           None \<Rightarrow> False | Some p \<Rightarrow> color p = currentTurn (newGame None))
   \<and> from_sq (moveRequest ''e2'' ''e5'') \<noteq> to_sq (moveRequest ''e2'' ''e5'')
   \<and> \<not> requestIn (moveRequest ''e2'' ''e5'')
          (getLegalMovesFrom (newGame None) (from_sq (moveRequest ''e2'' ''e5'')))"
  "isValidSquare (from_sq (moveRequest ''a7'' ''a8'')) \<and> isValidSquare (to_sq (moveRequest ''a7'' ''a8''))
   \<and> (case getPiece (board promotionPosition) (from_sq (moveRequest ''a7'' ''a8'')) of
           None \<Rightarrow> False | Some p \<Rightarrow> color p = currentTurn promotionPosition)
   \<and> from_sq (moveRequest ''a7'' ''a8'') \<noteq> to_sq (moveRequest ''a7'' ''a8'')
   \<and> requestIn (moveRequest ''a7'' ''a8'')
          (getLegalMovesFrom promotionPosition (from_sq (moveRequest ''a7'' ''a8'')))
   \<and> map_option ptype (getPiece (board promotionPosition) (from_sq (moveRequest ''a7'' ''a8'')))
       = Some Pawn
   \<and> promotionSquare (to_sq (moveRequest ''a7'' ''a8'')) (currentTurn promotionPosition)
   \<and> promotion (moveRequest ''a7'' ''a8'') = None"
  by code_simp+

lemma rejected_invalid: "\<not> valid (rejected r)"
  by (simp add: rejected_def)

text \<open>
  Witness for C4: one request for each of the six reasons, five on the starting
  position and the promotion a7-a8 without a promotion piece.
\<close>

theorem C4_witness:
  "validateMove (moveGenerator (newGame None)) (moveRequest ''e9'' ''e4'') (currentTurn (newGame None))
     = rejected ''Invalid square''
   \<and> Game_move (newGame None) (moveRequest ''e9'' ''e4'') = (newGame None, None)
   \<and> validateMove (moveGenerator (newGame None)) (moveRequest ''e4'' ''e5'') (currentTurn (newGame None))
     = rejected ''No piece at starting square''
   \<and> Game_move (newGame None) (moveRequest ''e4'' ''e5'') = (newGame None, None)
   \<and> validateMove (moveGenerator (newGame None)) (moveRequest ''e7'' ''e5'') (currentTurn (newGame None))
     = rejected ''Not your piece''
   \<and> Game_move (newGame None) (moveRequest ''e7'' ''e5'') = (newGame None, None)
   \<and> validateMove (moveGenerator (newGame None)) (moveRequest ''e2'' ''e2'') (currentTurn (newGame None))
     = rejected ''Cannot move to the same square''
   \<and> Game_move (newGame None) (moveRequest ''e2'' ''e2'') = (newGame None, None)
   \<and> validateMove (moveGenerator (newGame None)) (moveRequest ''e2'' ''e5'') (currentTurn (newGame None))
     = rejected ''Illegal move''
   \<and> Game_move (newGame None) (moveRequest ''e2'' ''e5'') = (newGame None, None)
   \<and> validateMove (moveGenerator promotionPosition) (moveRequest ''a7'' ''a8'')
       (currentTurn promotionPosition) = rejected ''Pawn promotion required''
   \<and> Game_move promotionPosition (moveRequest ''a7'' ''a8'') = (promotionPosition, None)"
proof -
  note t = C4_invalid_requests_rejected [unfolded Let_def]
  have v1: "validateMove (moveGenerator (newGame None)) (moveRequest ''e9'' ''e4'')
      (currentTurn (newGame None)) = rejected ''Invalid square''"
    using t [where g = "newGame None" and req = "moveRequest ''e9'' ''e4''"] c4_premises(1) by blast
  have v2: "validateMove (moveGenerator (newGame None)) (moveRequest ''e4'' ''e5'')
      (currentTurn (newGame None)) = rejected ''No piece at starting square''"
    using t [where g = "newGame None" and req = "moveRequest ''e4'' ''e5''"] c4_premises(2) by blast
  have v3: "validateMove (moveGenerator (newGame None)) (moveRequest ''e7'' ''e5'')
      (currentTurn (newGame None)) = rejected ''Not your piece''"
    using t [where g = "newGame None" and req = "moveRequest ''e7'' ''e5''"] c4_premises(3) by blast
  have v4: "validateMove (moveGenerator (newGame None)) (moveRequest ''e2'' ''e2'')
      (currentTurn (newGame None)) = rejected ''Cannot move to the same square''"
    using t [where g = "newGame None" and req = "moveRequest ''e2'' ''e2''"] c4_premises(4) by blast
  have v5: "validateMove (moveGenerator (newGame None)) (moveRequest ''e2'' ''e5'')
      (currentTurn (newGame None)) = rejected ''Illegal move''"
    using t [where g = "newGame None" and req = "moveRequest ''e2'' ''e5''"] c4_premises(5) by blast
  have v6: "validateMove (moveGenerator promotionPosition) (moveRequest ''a7'' ''a8'')
      (currentTurn promotionPosition) = rejected ''Pawn promotion required''"
    using t [where g = promotionPosition and req = "moveRequest ''a7'' ''a8''"] c4_premises(6) by blast
  have m: "\<And>g (r :: MoveOptions) x.
      validateMove (moveGenerator g) r (currentTurn g) = rejected x \<Longrightarrow> Game_move g r = (g, None)"
    using t rejected_invalid by metis
  show ?thesis
    using v1 v2 v3 v4 v5 v6 m [OF v1] m [OF v2] m [OF v3] m [OF v4] m [OF v5] m [OF v6]
    by (intro conjI)
qed


section \<open>Threefold repetition\<close>

text \<open>
  C5. From the starting position, with the cycle Ng1-f3, Ng8-f6, Nf3-g1, Nf6-g8 played
  twice: every move is executed; the key of the starting position is reached again
  after the fourth and the eighth move and at no other; its count in the table is 1, 1,
  1, 2, 2, 2, 2, 3 after the eight moves; and the status is \<open>active\<close> after each of the
  first seven moves and \<open>threefold_repetition\<close> after the eighth, when the count reaches 3.
\<close>

theorem C5_threefold_on_third_occurrence:
  "statusTrace (getPositionKey (newGame None)) (newGame None) (knightCycle @ knightCycle) =
     [(Active, 1, False), (Active, 1, False), (Active, 1, False), (Active, 2, True),
      (Active, 2, False), (Active, 2, False), (Active, 2, False),
      (Threefold_repetition, 3, True)]
   \<and> gameStatus (newGame None) = Active
   \<and> map_of (positionHistory (newGame None)) (getPositionKey (newGame None)) = Some 1"
  by code_simp

section \<open>Draw nodes in the search\<close>

lemma kingBishopVsKing_status: "gameStatus kingBishopVsKing = Insufficient_material"
  by code_simp

lemma kingBishopVsKing_value: "evaluateBoard (board kingBishopVsKing) White = 330"
  by code_simp

text \<open>
  C6 (the code departs from the claim). \<open>minimax\<close> returns 0 for the statuses
  \<open>stalemate\<close> and \<open>draw\<close>, and the game never sets \<open>draw\<close>: it sets
  \<open>insufficient_material\<close>, \<open>threefold_repetition\<close> and \<open>fifty_move_rule\<close>. With king and
  bishop against king the status is \<open>insufficient_material\<close>, and a node of depth 0 on
  that game returns the evaluation 330 (the bishop; the placement term is 0 there).
\<close>

theorem C6_insufficient_material_node_not_zero:
  "gameStatus kingBishopVsKing = Insufficient_material
   \<and> fst (minimax (Suc fuel) cfg clock startTime kingBishopVsKing 0 alpha beta
            maximizingPlayer st) = Some (Inr (Fin 330))"
  by (simp add: kingBishopVsKing_status kingBishopVsKing_value Let_def)

section \<open>Phase detection\<close>

text \<open>
  C7 (the code departs from the claim). With a white queen and king against the bare
  black king, every side that has a queen has no other piece, so the rule as documented
  says endgame; \<open>isEndgame\<close> returns false, because its second test asks for a queen on
  both sides.
\<close>

theorem C7_queen_against_bare_king: "endgame_spec queenVsKing \<and> \<not> isEndgame queenVsKing"
  by code_simp

section \<open>Loading a malformed FEN\<close>

text \<open>
  The characters \<open>charToPiece\<close> accepts: the twelve piece letters and, through
  \<open>toLowerCase\<close>, the Kelvin sign.
\<close>

lemma typeMap_keys:
  "typeMap key = Some t \<Longrightarrow> key \<in> set (map (\<lambda>c. [of_char c]) ''pnbrqk'')"
  by (simp add: typeMap_def js_def split: if_splits)

lemma charToPiece_accepts:
  assumes "charToPiece ch = Some p"
  shows "ch \<in> set pieceLetters \<or> ch = [kelvinSign]"
proof -
  from assms obtain t where t: "typeMap (toLowerCase ch) = Some t"
    by (auto simp: charToPiece_def Let_def split: option.splits)
  from typeMap_keys [OF t] show ?thesis
    by (auto simp: toLowerCase_def js_def pieceLetters_def kelvinSign_def
             split: if_splits list.splits)
qed

lemma parseRank_ok:
  "parseRank b ri rank fi = Inr (b', fi') \<Longrightarrow>
   fi' = fi + rankWidth rank \<and> (\<forall>ch\<in>set rank. unknownPieceChar ch \<longrightarrow> ch = [kelvinSign])"
proof (induction rank arbitrary: b fi)
  case Nil
  then show ?case by simp
next
  case (Cons ch rest)
  show ?case
  proof (cases "digitOf ch")
    case (Some n)
    with Cons.prems have "parseRank b ri rest (fi + n) = Inr (b', fi')"
      by (simp split: if_splits)
    from Cons.IH [OF this] Some show ?thesis by (simp add: unknownPieceChar_def)
  next
    case None
    with Cons.prems obtain p where p: "charToPiece ch = Some p"
      and r: "parseRank (setPieceAt b (7 - ri) fi (Some p)) ri rest (fi + 1) = Inr (b', fi')"
      by (cases "charToPiece ch") (simp_all split: if_splits)
    from Cons.IH [OF r] None charToPiece_accepts [OF p] show ?thesis
      by (auto simp: unknownPieceChar_def)
  qed
qed

lemma parseRanks_ok:
  "parseRanks b ri ranks = Inr b' \<Longrightarrow>
   (\<forall>rank\<in>set ranks. rankWidth (codePoints rank) = 8
      \<and> (\<forall>ch\<in>set (codePoints rank). unknownPieceChar ch \<longrightarrow> ch = [kelvinSign]))"
proof (induction ranks arbitrary: b ri)
  case Nil
  then show ?case by simp
next
  case (Cons rank ranks)
  from Cons.prems obtain b1 fi where
    r: "parseRank b ri (codePoints rank) 0 = Inr (b1, fi)" and fi: "fi = 8"
    and rest: "parseRanks b1 (ri + 1) ranks = Inr b'"
    by (auto split: sum.splits prod.splits if_splits)
  from parseRank_ok [OF r] fi Cons.IH [OF rest] show ?case by simp
qed

lemma six_parts:
  assumes "(case parts of [a, b, c, d, e, f] \<Rightarrow> F a b c d e f | _ \<Rightarrow> Inl x) = Inr y"
  shows "\<exists>a b c d e f. parts = [a, b, c, d, e, f] \<and> F a b c d e f = Inr y"
proof -
  from assms obtain a p1 where 1: "parts = a # p1" by (cases parts) auto
  from assms 1 obtain b p2 where 2: "p1 = b # p2" by (cases p1) auto
  from assms 1 2 obtain c p3 where 3: "p2 = c # p3" by (cases p2) auto
  from assms 1 2 3 obtain d p4 where 4: "p3 = d # p4" by (cases p3) auto
  from assms 1 2 3 4 obtain e p5 where 5: "p4 = e # p5" by (cases p4) auto
  from assms 1 2 3 4 5 obtain f p6 where 6: "p5 = f # p6" by (cases p5) auto
  from assms 1 2 3 4 5 6 have 7: "p6 = []" by (cases p6) auto
  from assms 1 2 3 4 5 6 7 show ?thesis by simp
qed

lemma parse_ok:
  assumes "parse fen = Inr d"
  shows "\<not> malformedFen fen \<or> list_ex (list_ex (\<lambda>ch. ch = [kelvinSign])) (fenRanks fen)"
proof -
  from assms have "\<exists>a b c d' e f. fenFields fen = [a, b, c, d', e, f]
      \<and> (case parsePiecePlacement a of
             Inl e \<Rightarrow> Inl e
           | Inr b' \<Rightarrow>
          (case parseActiveColor b of
             Inl e \<Rightarrow> Inl e
           | Inr turn \<Rightarrow>
          (case parseCastlingRights c of
             Inl e \<Rightarrow> Inl e
           | Inr rights \<Rightarrow>
          (case parseEnPassant d' of
             Inl e \<Rightarrow> Inl e
           | Inr ep \<Rightarrow>
          (case parseHalfMoveClock e of
             Inl e \<Rightarrow> Inl e
           | Inr hm \<Rightarrow>
          (case parseFullMoveNumber f of
             Inl e \<Rightarrow> Inl e
           | Inr fm \<Rightarrow>
               Inr \<lparr>fen_board = b', fen_turn = turn, fen_castlingRights = rights,
                    fen_enPassantSquare = ep, fen_halfMoveClock = hm,
                    fen_fullMoveNumber = fm\<rparr>)))))) = Inr d"
    unfolding parse_def fenFields_def Let_def by (rule six_parts)
  then obtain a b c d' e f bd where parts: "fenFields fen = [a, b, c, d', e, f]"
    and pp: "parsePiecePlacement a = Inr bd"
    by (cases "parsePiecePlacement (hd (fenFields fen))") auto
  then have len: "length (splitChar (of_char (CHR ''/'')) a) = 8"
    and rs: "parseRanks createEmptyBoard 0 (splitChar (of_char (CHR ''/'')) a) = Inr bd"
    by (auto simp: parsePiecePlacement_def Let_def split: if_splits)
  from parseRanks_ok [OF rs] len parts show ?thesis
    by (auto simp: malformedFen_def fenRanks_def list_ex_iff)
qed

text \<open>
  Apart from that one character the parser does what is said of it: a structurally
  malformed FEN with no Kelvin sign among the characters of its ranks makes \<open>loadFen\<close>
  throw, and the game is exactly the game before the call.
\<close>

lemma loadFen_malformed_keeps_state:
  assumes "malformedFen fen"
    and "\<not> list_ex (list_ex (\<lambda>ch. ch = [kelvinSign])) (fenRanks fen)"
  shows "\<exists>e. loadFen g fen = (g, Some e)"
proof -
  from assms obtain e where "parse fen = Inl e"
    using parse_ok [of fen] by (cases "parse fen") auto
  then show ?thesis by (simp add: loadFen_def)
qed

text \<open>
  Five such strings: four fields; three ranks; a rank of nine pawns; a rank of seven
  pawns; the unknown letter x.
\<close>

lemma malformed_examples:
  "malformedFen (js ''8/8/8/8/8/8/8/8 w - -'')
   \<and> \<not> list_ex (list_ex (\<lambda>ch. ch = [kelvinSign])) (fenRanks (js ''8/8/8/8/8/8/8/8 w - -''))"
  "malformedFen (js ''8/8/8 w - - 0 1'')
   \<and> \<not> list_ex (list_ex (\<lambda>ch. ch = [kelvinSign])) (fenRanks (js ''8/8/8 w - - 0 1''))"
  "malformedFen (js ''rnbqkbnr/ppppppppp/8/8/8/8/PPPPPPPP/RNBQKBNR w KQkq - 0 1'')
   \<and> \<not> list_ex (list_ex (\<lambda>ch. ch = [kelvinSign]))
         (fenRanks (js ''rnbqkbnr/ppppppppp/8/8/8/8/PPPPPPPP/RNBQKBNR w KQkq - 0 1''))"
  "malformedFen (js ''rnbqkbnr/ppppppp/8/8/8/8/PPPPPPPP/RNBQKBNR w KQkq - 0 1'')
   \<and> \<not> list_ex (list_ex (\<lambda>ch. ch = [kelvinSign]))
         (fenRanks (js ''rnbqkbnr/ppppppp/8/8/8/8/PPPPPPPP/RNBQKBNR w KQkq - 0 1''))"
  "malformedFen (js ''rnbqkbnr/pppppppx/8/8/8/8/PPPPPPPP/RNBQKBNR w KQkq - 0 1'')
   \<and> \<not> list_ex (list_ex (\<lambda>ch. ch = [kelvinSign]))
         (fenRanks (js ''rnbqkbnr/pppppppx/8/8/8/8/PPPPPPPP/RNBQKBNR w KQkq - 0 1''))"
  by code_simp+

text \<open>
  C10 (the code departs from the claim). In \<open>kelvinFen\<close> the first rank holds U+212A
  KELVIN SIGN, which is neither a digit nor a piece letter, so the string is malformed
  by an unknown piece character. \<open>charToPiece\<close> finds its piece type under the lower
  case of the character, which is k, and takes it for a white king: \<open>loadFen\<close> of
  that string into the game after 1. e4 does not throw, and replaces the board, the
  turn, the counters, the move history and the repetition table.
\<close>

theorem C10_kelvin_sign_read_as_king:
  "(let g = fst (Game_move (newGame None) (moveRequest ''e2'' ''e4''))
    in (unknownPieceChar [kelvinSign], malformedFen kelvinFen,
        charToPiece [kelvinSign], getFen g, length (moveHistory g),
        (case loadFen g kelvinFen of
           (g', err) \<Rightarrow>
             (err, g' = g, getFen g', length (moveHistory g'),
              map snd (positionHistory g'), gameStatus g'))))
   = (True, True, Some \<lparr>ptype = King, color = White\<rparr>,
      ''rnbqkbnr/pppppppp/8/8/4P3/8/PPPP1PPP/RNBQKBNR b KQkq e3 0 1'', 1,
      (None, False, ''4k3/8/8/8/8/8/8/4K3 w - - 0 1'', 0, [1], Insufficient_material))"
  by code_simp

text \<open>
  The same load, read off component by component: the string is malformed, nothing is
  thrown, and the game is no longer the game after 1. e4.
\<close>

theorem C10_witness:
  "malformedFen kelvinFen
   \<and> snd (loadFen (fst (Game_move (newGame None) (moveRequest ''e2'' ''e4''))) kelvinFen) = None
   \<and> fst (loadFen (fst (Game_move (newGame None) (moveRequest ''e2'' ''e4''))) kelvinFen)
       \<noteq> fst (Game_move (newGame None) (moveRequest ''e2'' ''e4''))"
  using C10_kelvin_sign_read_as_king
  by (simp add: Let_def split: prod.splits)

end
